theory Spec2Isabelle
  imports Main "HOL-Library.AList" "HOL-Library.Sublist" "HOL-Library.Char_ord"
    "HOL-Library.List_Lexorder"
    "HOL-Library.Product_Lexorder" "HOL-Library.Multiset"
begin

section \<open>Values held by the player table\<close>

text \<open>
  \<^verbatim>\<open>tennis_dashboard.py\<close> reads \<^verbatim>\<open>data.json\<close> into a pandas frame and answers three
  callbacks from it. A value of the frame is a missing entry (pandas NaN, JSON null),
  an integer or a text. Python texts are kept as their UTF-8 bytes: equality,
  concatenation, repetition and the code point order of \<^verbatim>\<open>str\<close> are the same on the
  encodings. Fractional numbers are left out.
\<close>

datatype cell = NA | Num int | Str string

datatype error =
    KeyError string
  | IndexError
  | TypeError
  | AttributeError
  | ReError
  | NotModelled

section \<open>Labels and groups\<close>

definition LABELS :: "(string \<times> string) list" where
  "LABELS =
     [(''name'', ''Player Name''),
      (''style'', ''Play Style''),
      (''height'', ''Height (cm)''),
      (''weight'', ''Weight (kg)''),
      (''hand'', ''Dominant Hand''),
      (''fh_power'', ''Forehand Power''),
      (''fh_consistency'', ''Forehand Consistency''),
      (''fh_precision'', ''Forehand Precision''),
      (''bh_power'', ''Backhand Power''),
      (''bh_consistency'', ''Backhand Consistency''),
      (''bh_precision'', ''Backhand Precision''),
      (''fh_volley'', ''Forehand Volley''),
      (''bh_volley'', ''Backhand Volley''),
      (''smash'', ''Smash''),
      (''net_presence'', ''Net Presence''),
      (''srv_power'', ''Service Power''),
      (''srv_consistency'', ''Service Consistency''),
      (''srv_precision'', ''Service Precision''),
      (''focus'', ''Focus''),
      (''counter'', ''Counter Skill''),
      (''lob'', ''Lob Skill''),
      (''dropshot'', ''Dropshot Skill''),
      (''topspin'', ''Topspin Skill''),
      (''speed'', ''Speed''),
      (''stamina'', ''Stamina''),
      (''tonicity'', ''Muscle Tone''),
      (''tal_slice_serve'', ''Slice Serve''),
      (''tal_topspin_serve'', ''Topspin Serve''),
      (''tal_twist_serve'', ''Twist Serve''),
      (''tal_slice_mastery'', ''Slice Mastery''),
      (''tal_slider'', ''Slider''),
      (''tal_boom_server'', ''Boom Boom Server''),
      (''tal_ball_feeling'', ''Ball Feeling''),
      (''tal_spinny_bh'', ''Spinny Backhand''),
      (''tal_flat_bh'', ''Flat Backhand'')]"

definition GROUPS :: "(string \<times> string list) list" where
  "GROUPS =
     [(''Rally'', [''fh_power'', ''fh_consistency'', ''fh_precision'',
                   ''bh_power'', ''bh_consistency'', ''bh_precision'']),
      (''Volley'', [''fh_volley'', ''bh_volley'', ''smash'', ''net_presence'']),
      (''Serve'', [''srv_power'', ''srv_consistency'', ''srv_precision'']),
      (''Special'', [''focus'', ''counter'', ''lob'', ''dropshot'', ''topspin'']),
      (''Physique'', [''speed'', ''stamina'', ''tonicity'']),
      (''Talents'', [''tal_slice_serve'', ''tal_topspin_serve'', ''tal_twist_serve'',
                     ''tal_slice_mastery'', ''tal_slider'', ''tal_boom_server'',
                     ''tal_ball_feeling'', ''tal_spinny_bh'', ''tal_flat_bh''])]"

text \<open>Subscripting a dictionary raises KeyError on a key it does not hold.\<close>

definition getitem :: "(string \<times> 'v) list \<Rightarrow> string \<Rightarrow> error + 'v" where
  "getitem d k = (case map_of d k of None \<Rightarrow> Inl (KeyError k) | Some v \<Rightarrow> Inr v)"

section \<open>Helpers\<close>

subsection \<open>The builtin \<^verbatim>\<open>int\<close> on a table value\<close>

text \<open>
  \<^verbatim>\<open>int(val)\<close> raises on NaN and None, returns an integer unchanged and parses a text:
  blanks stripped on both sides, one optional sign, then decimal digits where single
  underscores may stand between two digits. \<open>None\<close> is the raised exception. The
  parser reads ASCII texts; the non-ASCII digits and blanks Python accepts as well are
  outside it.
\<close>

definition is_space :: "char \<Rightarrow> bool" where
  "is_space c = (c \<in> set [CHR 0x09, CHR 0x0A, CHR 0x0B, CHR 0x0C, CHR 0x0D, CHR 0x20])"

definition strip :: "string \<Rightarrow> string" where
  "strip s = rev (dropWhile is_space (rev (dropWhile is_space s)))"

definition is_digit :: "char \<Rightarrow> bool" where
  "is_digit c = (CHR ''0'' \<le> c \<and> c \<le> CHR ''9'')"

definition digit_val :: "char \<Rightarrow> nat" where
  "digit_val c = of_char c - of_char CHR ''0''"

fun int_digits :: "nat \<Rightarrow> string \<Rightarrow> nat option" where
  "int_digits acc [] = Some acc"
| "int_digits acc [c] = (if is_digit c then Some (10 * acc + digit_val c) else None)"
| "int_digits acc (c # d # cs) =
     (if is_digit c then int_digits (10 * acc + digit_val c) (d # cs)
      else if c = CHR ''_'' \<and> is_digit d then int_digits acc (d # cs)
      else None)"

definition int_literal :: "string \<Rightarrow> nat option" where
  "int_literal s =
     (case s of [] \<Rightarrow> None
      | c # cs \<Rightarrow> if is_digit c then int_digits 0 (c # cs) else None)"

definition int_of_str :: "string \<Rightarrow> int option" where
  "int_of_str s =
     (case strip s of
        [] \<Rightarrow> None
      | c # cs \<Rightarrow>
          if c = CHR ''-'' then map_option (\<lambda>n. - int n) (int_literal cs)
          else if c = CHR ''+'' then map_option int (int_literal cs)
          else map_option int (int_literal (c # cs)))"

definition py_int :: "cell \<Rightarrow> int option" where
  "py_int val = (case val of NA \<Rightarrow> None | Num i \<Rightarrow> Some i | Str s \<Rightarrow> int_of_str s)"

subsection \<open>\<^verbatim>\<open>talent_to_stars\<close>\<close>

text \<open>
  The two glyphs of the source, U+2014 (the dash) and U+2B50 (the star), as UTF-8.
  \<^verbatim>\<open>"*" * v\<close> on a text is \<open>v\<close> copies, and no copy at all when \<open>v\<close> is negative.
\<close>

definition DASH :: string where
  "DASH = [CHR 0xE2, CHR 0x80, CHR 0x94]"

definition STAR :: string where
  "STAR = [CHR 0xE2, CHR 0xAD, CHR 0x90]"

definition str_mul :: "string \<Rightarrow> int \<Rightarrow> string" where
  "str_mul s v = concat (replicate (nat v) s)"

definition talent_to_stars :: "cell \<Rightarrow> bool \<Rightarrow> string" where
  "talent_to_stars val max_one =
     (let v = (case py_int val of Some i \<Rightarrow> i | None \<Rightarrow> 0);
          v = (if max_one then min v 1 else if v > 2 then 2 else v)
      in if v = 0 then DASH else str_mul STAR v)"

section \<open>Data loading\<close>

text \<open>
  One object of \<^verbatim>\<open>data.json\<close> is a list of key/value pairs with distinct keys. The
  frame \<^verbatim>\<open>pd.DataFrame(data)\<close> has one column for every key that occurs in some
  object, and a row reads NaN in a column its object has no key for.
\<close>

type_synonym row = "(string \<times> cell) list"

record dataframe =
  columns :: "string list"
  rows :: "row list"

definition cell_at :: "row \<Rightarrow> string \<Rightarrow> cell" where
  "cell_at r k = (case map_of r k of None \<Rightarrow> NA | Some v \<Rightarrow> v)"

definition name_of :: "row \<Rightarrow> cell" where
  "name_of r = cell_at r ''name''"

fun keep_first :: "('a \<Rightarrow> 'k) \<Rightarrow> 'k list \<Rightarrow> 'a list \<Rightarrow> 'a list" where
  "keep_first f seen [] = []"
| "keep_first f seen (x # xs) =
     (if f x \<in> set seen then keep_first f seen xs
      else x # keep_first f (f x # seen) xs)"

definition DataFrame :: "row list \<Rightarrow> dataframe" where
  "DataFrame data =
     \<lparr>columns = keep_first id [] (concat (map (map fst) data)), rows = data\<rparr>"

text \<open>
  \<^verbatim>\<open>drop_duplicates(subset=["name"])\<close> raises KeyError when the frame has no such
  column; else it keeps, of the rows equal in that column, the first (two missing
  entries count as equal).
\<close>

definition drop_duplicates :: "string \<Rightarrow> dataframe \<Rightarrow> error + dataframe" where
  "drop_duplicates key df =
     (if key \<notin> set (columns df) then Inl (KeyError key)
      else Inr (df\<lparr>rows := keep_first (\<lambda>r. cell_at r key) [] (rows df)\<rparr>))"

definition fillna :: "string \<Rightarrow> cell \<Rightarrow> cell" where
  "fillna d c = (case c of NA \<Rightarrow> Str d | _ \<Rightarrow> c)"

definition replace_cell :: "(string \<times> string) list \<Rightarrow> cell \<Rightarrow> cell" where
  "replace_cell table c =
     (case c of
        Str s \<Rightarrow> (case map_of table s of Some t \<Rightarrow> Str t | None \<Rightarrow> c)
      | _ \<Rightarrow> c)"

definition HAND_REPLACE :: "(string \<times> string) list" where
  "HAND_REPLACE =
     [(''L'', ''Left''), (''R'', ''Right''),
      (''U'', ''Left''),
      (''LeftHanded'', ''Left''), (''RightHanded'', ''Right''),
      (''left'', ''Left''), (''right'', ''Right''),
      (''unknown'', ''Left''),
      (''Unknown'', ''Left''),
      (''Diestro'', ''Right''),
      (''Zurdo'', ''Left'')]"

definition normalize_hand :: "cell \<Rightarrow> cell" where
  "normalize_hand c = replace_cell HAND_REPLACE (fillna ''Unknown'' c)"

definition normalize_hand_row :: "row \<Rightarrow> row" where
  "normalize_hand_row r = AList.update ''hand'' (normalize_hand (cell_at r ''hand'')) r"

text \<open>
  The module level statements that build \<^verbatim>\<open>df\<close> (the index is not modelled, so
  \<^verbatim>\<open>reset_index\<close> has nothing to do). \<^verbatim>\<open>df["hand"]\<close> raises KeyError when no
  object has a hand.
\<close>

definition load :: "row list \<Rightarrow> error + dataframe" where
  "load data =
     (case drop_duplicates ''name'' (DataFrame data) of
        Inl e \<Rightarrow> Inl e
      | Inr df \<Rightarrow>
          if ''hand'' \<notin> set (columns df) then Inl (KeyError ''hand'')
          else Inr (df\<lparr>rows := map normalize_hand_row (rows df)\<rparr>))"

section \<open>The player list callback\<close>

definition and_then :: "error + 'a \<Rightarrow> ('a \<Rightarrow> error + 'b) \<Rightarrow> error + 'b" where
  "and_then m f = (case m of Inl e \<Rightarrow> Inl e | Inr x \<Rightarrow> f x)"

fun collect :: "(error + 'a) list \<Rightarrow> error + 'a list" where
  "collect [] = Inr []"
| "collect (m # ms) = and_then m (\<lambda>x. and_then (collect ms) (\<lambda>xs. Inr (x # xs)))"

text \<open>\<^verbatim>\<open>players[key]\<close>: the column, or KeyError when the frame has none of that name.\<close>

definition getcol :: "dataframe \<Rightarrow> string \<Rightarrow> error + cell list" where
  "getcol players key =
     (if key \<in> set (columns players) then Inr (map (\<lambda>r. cell_at r key) (rows players))
      else Inl (KeyError key))"

text \<open>\<^verbatim>\<open>players[mask]\<close>: the rows at which the boolean mask is true.\<close>

definition boolean_index :: "bool list \<Rightarrow> dataframe \<Rightarrow> dataframe" where
  "boolean_index keep players =
     players\<lparr>rows := map snd (filter fst (zip keep (rows players)))\<rparr>"

subsection \<open>\<^verbatim>\<open>Series.str.contains(search, case=False, na=False)\<close>\<close>

text \<open>
  pandas compiles the text it is given as a regular expression (\<^verbatim>\<open>regex=True\<close> is its
  default) with \<^verbatim>\<open>re.IGNORECASE\<close> and keeps an entry when \<^verbatim>\<open>re.search\<close> finds a match
  in it. The module \<^verbatim>\<open>re\<close> is a parameter of the callback here: \<open>re pat\<close> is the
  exception that \<^verbatim>\<open>re.compile(pat, re.IGNORECASE)\<close> raises (\<open>ReError\<close> for
  \<^verbatim>\<open>re.error\<close>), or the compiled pattern as the test whether it is found in a text.
  What the callback does with the pattern does not depend on the syntax of patterns, so
  its properties are proved for every \<open>re\<close>.
\<close>

type_synonym matcher = "string \<Rightarrow> error + (string \<Rightarrow> bool)"

definition is_text :: "cell \<Rightarrow> bool" where
  "is_text c = (case c of Str s \<Rightarrow> True | _ \<Rightarrow> False)"

definition is_num :: "cell \<Rightarrow> bool" where
  "is_num c = (case c of Num i \<Rightarrow> True | _ \<Rightarrow> False)"

definition contains_in :: "(string \<Rightarrow> bool) \<Rightarrow> cell \<Rightarrow> bool" where
  "contains_in found c = (case c of Str s \<Rightarrow> found s | _ \<Rightarrow> False)"

text \<open>
  The \<^verbatim>\<open>.str\<close> accessor raises AttributeError on a column of numbers (with or
  without missing entries); any other column has it. The pattern is compiled next.
  An entry that is not a text gives NaN, which \<^verbatim>\<open>na=False\<close> turns into False.
\<close>

definition str_contains :: "matcher \<Rightarrow> string \<Rightarrow> cell list \<Rightarrow> error + bool list" where
  "str_contains re pat col =
     (if list_ex is_num col \<and> \<not> list_ex is_text col then Inl AttributeError
      else and_then (re pat) (\<lambda>found. Inr (map (contains_in found) col)))"

text \<open>
  A part of \<^verbatim>\<open>re\<close> written out, only for the evaluation of the callback on sample
  inputs: the patterns of ordinary ASCII characters and the dot, which stands for any
  character but the newline, found in ASCII texts with the letter case ignored. On
  any other pattern \<open>re_fragment\<close> answers \<open>NotModelled\<close>, whatever Python does
  there; no general property of the callback is stated for it.
\<close>

definition is_ascii :: "string \<Rightarrow> bool" where
  "is_ascii s = list_all (\<lambda>c. (of_char c :: nat) < 128) s"

definition lower :: "char \<Rightarrow> char" where
  "lower c =
     (case map_of (zip ''ABCDEFGHIJKLMNOPQRSTUVWXYZ'' ''abcdefghijklmnopqrstuvwxyz'') c of
        Some d \<Rightarrow> d
      | None \<Rightarrow> c)"

definition RE_SPECIAL :: string where
  "RE_SPECIAL = CHR 0x5C # ''.^$*+?{}[]|()''"

datatype re_item = Literal char | AnyChar

definition re_item_of :: "char \<Rightarrow> re_item option" where
  "re_item_of c =
     (if c = CHR ''.'' then Some AnyChar
      else if c \<in> set RE_SPECIAL then None
      else Some (Literal c))"

fun match_here :: "re_item list \<Rightarrow> string \<Rightarrow> bool" where
  "match_here [] s = True"
| "match_here (i # p) [] = False"
| "match_here (Literal c # p) (d # s) = (lower c = lower d \<and> match_here p s)"
| "match_here (AnyChar # p) (d # s) = (d \<noteq> CHR 0x0A \<and> match_here p s)"

fun re_search :: "re_item list \<Rightarrow> string \<Rightarrow> bool" where
  "re_search p [] = match_here p []"
| "re_search p (d # s) = (match_here p (d # s) \<or> re_search p s)"

definition re_fragment :: matcher where
  "re_fragment pat =
     (if is_ascii pat then
        (case those (map re_item_of pat) of
           None \<Rightarrow> Inl NotModelled
         | Some p \<Rightarrow> Inr (re_search p))
      else Inl NotModelled)"

subsection \<open>The four filters and the sort\<close>

definition filter_search :: "matcher \<Rightarrow> string option \<Rightarrow> dataframe \<Rightarrow> error + dataframe" where
  "filter_search re search players =
     (case search of
        None \<Rightarrow> Inr players
      | Some s \<Rightarrow>
          if s = [] then Inr players
          else and_then (getcol players ''name'') (\<lambda>col.
               and_then (str_contains re s col) (\<lambda>keep.
               Inr (boolean_index keep players))))"

definition filter_equal :: "string \<Rightarrow> string option \<Rightarrow> dataframe \<Rightarrow> error + dataframe" where
  "filter_equal key wanted players =
     (case wanted of
        None \<Rightarrow> Inr players
      | Some s \<Rightarrow>
          if s = [] then Inr players
          else and_then (getcol players key) (\<lambda>col.
               Inr (boolean_index (map (\<lambda>c. c = Str s) col) players)))"

text \<open>
  \<^verbatim>\<open>players["speed"] >= min_speed\<close>: false on a missing entry, and TypeError when an
  entry is a text.
\<close>

definition series_ge :: "cell list \<Rightarrow> int \<Rightarrow> error + bool list" where
  "series_ge col m =
     (if list_ex is_text col then Inl TypeError
      else Inr (map (\<lambda>c. case c of Num v \<Rightarrow> m \<le> v | _ \<Rightarrow> False) col))"

definition filter_min_speed :: "int option \<Rightarrow> dataframe \<Rightarrow> error + dataframe" where
  "filter_min_speed min_speed players =
     (case min_speed of
        None \<Rightarrow> Inr players
      | Some m \<Rightarrow>
          if m = 0 then Inr players
          else and_then (getcol players ''speed'') (\<lambda>col.
               and_then (series_ge col m) (\<lambda>keep.
               Inr (boolean_index keep players))))"

text \<open>
  \<^verbatim>\<open>sort_values("name")\<close>: ascending, the missing names last; numbers by value, texts
  by code points; TypeError when a number has to be compared with a text. Rows with
  equal names stay in their order here (a table that was loaded has none).
\<close>

definition name_key :: "cell \<Rightarrow> nat \<times> int \<times> string" where
  "name_key c = (case c of Num i \<Rightarrow> (0, i, []) | Str s \<Rightarrow> (1, 0, s) | NA \<Rightarrow> (2, 0, []))"

definition sort_values :: "string \<Rightarrow> dataframe \<Rightarrow> error + dataframe" where
  "sort_values key players =
     and_then (getcol players key) (\<lambda>col.
       if list_ex is_num col \<and> list_ex is_text col then Inl TypeError
       else Inr (players\<lparr>rows := sort_key (\<lambda>r. name_key (cell_at r key)) (rows players)\<rparr>))"

text \<open>Lines 194 to 203: the value of \<^verbatim>\<open>players\<close> that is then rendered.\<close>

definition update_player_list_players ::
  "matcher \<Rightarrow> dataframe \<Rightarrow> string option \<Rightarrow> string option \<Rightarrow> string option \<Rightarrow> int option
     \<Rightarrow> error + dataframe" where
  "update_player_list_players re df search style hand min_speed =
     and_then (filter_search re search df) (\<lambda>players.
     and_then (filter_equal ''style'' style players) (\<lambda>players.
     and_then (filter_equal ''hand'' hand players) (\<lambda>players.
     and_then (filter_min_speed min_speed players) (\<lambda>players.
     sort_values ''name'' players))))"

subsection \<open>Rendering the list\<close>

text \<open>
  \<^verbatim>\<open>quote_plus\<close> keeps letters, digits and \<^verbatim>\<open>_.-~\<close>, writes a blank as \<^verbatim>\<open>+\<close> and any
  other byte of the UTF-8 text as \<^verbatim>\<open>%XX\<close>; it raises TypeError on a name that is not a
  text.
\<close>

definition hex_digit :: "nat \<Rightarrow> char" where
  "hex_digit n = ''0123456789ABCDEF'' ! (n mod 16)"

definition is_always_safe :: "char \<Rightarrow> bool" where
  "is_always_safe c =
     ((CHR ''A'' \<le> c \<and> c \<le> CHR ''Z'') \<or> (CHR ''a'' \<le> c \<and> c \<le> CHR ''z'')
      \<or> (CHR ''0'' \<le> c \<and> c \<le> CHR ''9'') \<or> c \<in> set ''_.-~'')"

definition quote_plus :: "string \<Rightarrow> string" where
  "quote_plus s =
     concat (map (\<lambda>c. if is_always_safe c then [c]
                       else if c = CHR '' '' then ''+''
                       else [CHR ''%'', hex_digit (of_char c div 16), hex_digit (of_char c)]) s)"

datatype player_list = NoPlayersFound | PlayerLinks "(string \<times> string) list"

definition player_link :: "row \<Rightarrow> error + (string \<times> string)" where
  "player_link r =
     (case name_of r of
        Str n \<Rightarrow> Inr (n, ''/?player='' @ quote_plus n)
      | _ \<Rightarrow> Inl TypeError)"

definition update_player_list ::
  "matcher \<Rightarrow> dataframe \<Rightarrow> string option \<Rightarrow> string option \<Rightarrow> string option \<Rightarrow> int option
     \<Rightarrow> error + player_list" where
  "update_player_list re df search style hand min_speed =
     and_then (update_player_list_players re df search style hand min_speed) (\<lambda>players.
       if rows players = [] then Inr NoPlayersFound
       else and_then (collect (map player_link (rows players))) (\<lambda>links.
            Inr (PlayerLinks links)))"

subsection \<open>The selection as the specification words it\<close>

text \<open>
  The search text as \<^verbatim>\<open>str.contains\<close> reads it: the name is a text in which the
  compiled pattern is found.
\<close>

definition name_matches :: "matcher \<Rightarrow> string \<Rightarrow> cell \<Rightarrow> bool" where
  "name_matches re s c = (case re s of Inr found \<Rightarrow> contains_in found c | Inl e \<Rightarrow> False)"

text \<open>
  The conjunction of the constraints that are present and not empty (not zero, for the
  minimum speed).
\<close>

definition criteria_hold ::
  "matcher \<Rightarrow> string option \<Rightarrow> string option \<Rightarrow> string option \<Rightarrow> int option \<Rightarrow> row \<Rightarrow> bool" where
  "criteria_hold re search style hand min_speed r =
     ((case search of None \<Rightarrow> True
       | Some s \<Rightarrow> s \<noteq> [] \<longrightarrow> name_matches re s (name_of r))
      \<and> (case style of None \<Rightarrow> True
         | Some s \<Rightarrow> s \<noteq> [] \<longrightarrow> cell_at r ''style'' = Str s)
      \<and> (case hand of None \<Rightarrow> True
         | Some h \<Rightarrow> h \<noteq> [] \<longrightarrow> cell_at r ''hand'' = Str h)
      \<and> (case min_speed of None \<Rightarrow> True
         | Some m \<Rightarrow> m \<noteq> 0 \<longrightarrow>
             (case cell_at r ''speed'' of Num v \<Rightarrow> m \<le> v | _ \<Rightarrow> False)))"

text \<open>
  The search of the specification: the name contains the text as it stands, letter
  case apart.
\<close>

definition literal_contains :: "string \<Rightarrow> string \<Rightarrow> bool" where
  "literal_contains search name = sublist (map lower search) (map lower name)"

text \<open>
  Two tables with the same records in any order and the same columns, no name twice.
\<close>

definition same_records :: "dataframe \<Rightarrow> dataframe \<Rightarrow> bool" where
  "same_records p q =
     (mset (rows p) = mset (rows q) \<and> set (columns p) = set (columns q)
      \<and> distinct (map name_of (rows q)))"

section \<open>The query string of the page\<close>

text \<open>
  \<^verbatim>\<open>urllib.parse\<close> on UTF-8 texts. \<^verbatim>\<open>unquote\<close> turns every \<^verbatim>\<open>%XX\<close> of an ASCII stretch
  into its byte and decodes the stretch as UTF-8, where each ill-formed part becomes
  U+FFFD; bytes of the text that are not ASCII stay.
\<close>

definition hex_bits :: "(char \<times> bool \<times> bool \<times> bool \<times> bool) list" where
  "hex_bits =
     [(CHR ''0'', False, False, False, False), (CHR ''1'', True, False, False, False),
      (CHR ''2'', False, True, False, False), (CHR ''3'', True, True, False, False),
      (CHR ''4'', False, False, True, False), (CHR ''5'', True, False, True, False),
      (CHR ''6'', False, True, True, False), (CHR ''7'', True, True, True, False),
      (CHR ''8'', False, False, False, True), (CHR ''9'', True, False, False, True),
      (CHR ''a'', False, True, False, True), (CHR ''b'', True, True, False, True),
      (CHR ''c'', False, False, True, True), (CHR ''d'', True, False, True, True),
      (CHR ''e'', False, True, True, True), (CHR ''f'', True, True, True, True),
      (CHR ''A'', False, True, False, True), (CHR ''B'', True, True, False, True),
      (CHR ''C'', False, False, True, True), (CHR ''D'', True, False, True, True),
      (CHR ''E'', False, True, True, True), (CHR ''F'', True, True, True, True)]"

definition hex_byte :: "char \<Rightarrow> char \<Rightarrow> char option" where
  "hex_byte h l =
     (case (map_of hex_bits h, map_of hex_bits l) of
        (Some (h0, h1, h2, h3), Some (l0, l1, l2, l3)) \<Rightarrow>
          Some (Char l0 l1 l2 l3 h0 h1 h2 h3)
      | _ \<Rightarrow> None)"

fun unquote_to_bytes :: "string \<Rightarrow> string" where
  "unquote_to_bytes (c # h # l # cs) =
     (if c = CHR ''%'' then
        (case hex_byte h l of
           Some b \<Rightarrow> b # unquote_to_bytes cs
         | None \<Rightarrow> c # unquote_to_bytes (h # l # cs))
      else c # unquote_to_bytes (h # l # cs))"
| "unquote_to_bytes cs = cs"

definition REPLACEMENT :: string where
  "REPLACEMENT = [CHR 0xEF, CHR 0xBF, CHR 0xBD]"

definition is_cont :: "char \<Rightarrow> bool" where
  "is_cont c = (CHR 0x80 \<le> c \<and> c \<le> CHR 0xBF)"

text \<open>
  Whether \<open>c2\<close> may follow the lead byte \<open>c\<close> of a sequence of three or four bytes:
  a continuation byte that gives neither an overlong form, nor a surrogate, nor a code
  point above U+10FFFF.
\<close>

definition second_ok :: "char \<Rightarrow> char \<Rightarrow> bool" where
  "second_ok c c2 =
     (is_cont c2
      \<and> \<not> (c = CHR 0xE0 \<and> c2 < CHR 0xA0) \<and> \<not> (c = CHR 0xED \<and> CHR 0xA0 \<le> c2)
      \<and> \<not> (c = CHR 0xF0 \<and> c2 < CHR 0x90) \<and> \<not> (c = CHR 0xF4 \<and> CHR 0x90 \<le> c2))"

text \<open>
  \<^verbatim>\<open>bytes.decode("utf-8", "replace")\<close>, written back as UTF-8. \<open>need\<close> is the
  number of continuation bytes still due for the sequence whose bytes so far are
  \<open>pending\<close> (in reverse); a sequence that breaks off is replaced as a whole and the
  byte that broke it is read afresh.
\<close>

definition utf8_start :: "char \<Rightarrow> nat option" where
  "utf8_start c =
     (if c < CHR 0x80 then Some 0
      else if c < CHR 0xC2 then None
      else if c < CHR 0xE0 then Some 1
      else if c < CHR 0xF0 then Some 2
      else if c < CHR 0xF5 then Some 3
      else None)"

fun utf8_replace_from :: "string \<Rightarrow> nat \<Rightarrow> string \<Rightarrow> string" where
  "utf8_replace_from pending need [] = (if pending = [] then [] else REPLACEMENT)"
| "utf8_replace_from pending need (c # cs) =
     (if pending \<noteq> [] \<and> (if length pending = 1 \<and> 2 \<le> need then second_ok (hd pending) c
                            else is_cont c) then
        (if need = 1 then rev (c # pending) @ utf8_replace_from [] 0 cs
         else utf8_replace_from (c # pending) (need - 1) cs)
      else
        (if pending = [] then [] else REPLACEMENT) @
        (case utf8_start c of
           None \<Rightarrow> REPLACEMENT @ utf8_replace_from [] 0 cs
         | Some 0 \<Rightarrow> c # utf8_replace_from [] 0 cs
         | Some n \<Rightarrow> utf8_replace_from [c] n cs))"

definition utf8_replace :: "string \<Rightarrow> string" where
  "utf8_replace bs = utf8_replace_from [] 0 bs"

definition is_ascii_char :: "char \<Rightarrow> bool" where
  "is_ascii_char c = (c < CHR 0x80)"

fun unquote_from :: "string \<Rightarrow> string \<Rightarrow> string" where
  "unquote_from run [] = utf8_replace (unquote_to_bytes (rev run))"
| "unquote_from run (c # cs) =
     (if is_ascii_char c then unquote_from (c # run) cs
      else utf8_replace (unquote_to_bytes (rev run)) @ c # unquote_from [] cs)"

definition unquote :: "string \<Rightarrow> string" where
  "unquote s = unquote_from [] s"

definition unquote_plus :: "string \<Rightarrow> string" where
  "unquote_plus s = unquote (map (\<lambda>c. if c = CHR ''+'' then CHR '' '' else c) s)"

text \<open>\<^verbatim>\<open>s.split(sep)\<close> for a separator of one character.\<close>

fun split_on :: "char \<Rightarrow> string \<Rightarrow> string list" where
  "split_on sep [] = [[]]"
| "split_on sep (c # cs) =
     (if c = sep then [] # split_on sep cs
      else (case split_on sep cs of
              [] \<Rightarrow> [[c]]
            | w # ws \<Rightarrow> (c # w) # ws))"

text \<open>
  \<^verbatim>\<open>parse_qsl\<close> with its defaults: the fields are separated by \<^verbatim>\<open>&\<close>; a field that is
  empty, has no \<^verbatim>\<open>=\<close> or has nothing after its first \<^verbatim>\<open>=\<close> is dropped; name and value
  are unquoted.
\<close>

definition parse_field :: "string \<Rightarrow> (string \<times> string) list" where
  "parse_field name_value =
     (let name = takeWhile (\<lambda>c. c \<noteq> CHR ''='') name_value;
          val = drop 1 (dropWhile (\<lambda>c. c \<noteq> CHR ''='') name_value)
      in if val = [] then [] else [(unquote_plus name, unquote_plus val)])"

definition parse_qsl :: "string \<Rightarrow> (string \<times> string) list" where
  "parse_qsl qs = (if qs = [] then [] else concat (map parse_field (split_on CHR ''&'' qs)))"

definition parse_qs :: "string \<Rightarrow> (string \<times> string list) list" where
  "parse_qs qs =
     (let pairs = parse_qsl qs
      in map (\<lambda>name. (name, map snd (filter (\<lambda>nv. fst nv = name) pairs)))
           (keep_first id [] (map fst pairs)))"

section \<open>The tab callback\<close>

text \<open>
  Lines 380 to 384: the name of the selected player, read from the query string of the
  page (\<open>None\<close> when there is none; the value is unquoted a second time).
\<close>

definition player_name_of :: "string option \<Rightarrow> string option" where
  "player_name_of search =
     (case search of
        None \<Rightarrow> None
      | Some s \<Rightarrow>
          if s = [] then None
          else (case map_of (parse_qs (dropWhile (\<lambda>c. c = CHR ''?'') s)) ''player'' of
                  Some (v # vs) \<Rightarrow> Some (unquote_plus v)
                | _ \<Rightarrow> None))"

text \<open>
  \<^verbatim>\<open>p\<close> is a row of the frame, a Series indexed by all the columns of the frame:
  \<^verbatim>\<open>p.get(key, default)\<close> gives the default only when the frame has no such column, and
  the entry of the row, missing or not, when it has. \<^verbatim>\<open>p[key]\<close> raises KeyError
  instead of giving a default.
\<close>

definition series_get :: "dataframe \<Rightarrow> row \<Rightarrow> string \<Rightarrow> cell \<Rightarrow> cell" where
  "series_get df p key dflt =
     (if key \<in> set (columns df) then cell_at p key else dflt)"

definition series_item :: "dataframe \<Rightarrow> row \<Rightarrow> string \<Rightarrow> error + cell" where
  "series_item df p key =
     (if key \<in> set (columns df) then Inr (cell_at p key) else Inl (KeyError key))"

definition radar_attrs :: "string list" where
  "radar_attrs = [''fh_power'', ''bh_power'', ''srv_power'', ''speed'', ''stamina'', ''focus'']"

definition upper :: "char \<Rightarrow> char" where
  "upper c =
     (case map_of (zip ''abcdefghijklmnopqrstuvwxyz'' ''ABCDEFGHIJKLMNOPQRSTUVWXYZ'') c of
        Some d \<Rightarrow> d
      | None \<Rightarrow> c)"

definition capitalize :: "string \<Rightarrow> string" where
  "capitalize s = (case s of [] \<Rightarrow> [] | c # cs \<Rightarrow> upper c # map lower cs)"

text \<open>
  What the callback hands to the page, without the markup: the two messages, the
  overview (name, style, hand, height, weight and the radar rows of label and value),
  a group table (name, section and rows of label and value), the talents table, the
  two dropdowns of the comparison (the options and the preselected name), and the
  message for any other tab. The chart itself is drawn by plotly from the radar rows.
\<close>

datatype view =
    SelectPlayer
  | PlayerNotFound string
  | Overview cell cell cell cell cell "(string \<times> cell) list"
  | GroupTable cell string "(string \<times> cell) list"
  | TalentTable cell "(string \<times> string) list"
  | CompareForm "cell list" cell
  | InvalidTab

definition overview :: "dataframe \<Rightarrow> row \<Rightarrow> error + view" where
  "overview df p =
     (let radar_vals = map (\<lambda>a. series_get df p a (Num 0)) radar_attrs
      in and_then (collect (map (getitem LABELS) radar_attrs)) (\<lambda>labels.
         and_then (series_item df p ''name'') (\<lambda>name.
         and_then (series_item df p ''style'') (\<lambda>style.
         and_then (series_item df p ''hand'') (\<lambda>hand.
         and_then (series_item df p ''height'') (\<lambda>height.
         and_then (series_item df p ''weight'') (\<lambda>weight.
         Inr (Overview name style hand height weight (zip labels radar_vals)))))))))"

definition group_table :: "dataframe \<Rightarrow> row \<Rightarrow> string \<Rightarrow> error + view" where
  "group_table df p tab =
     (let section = capitalize tab
      in and_then (getitem GROUPS section) (\<lambda>keys.
         and_then (collect (map (\<lambda>key.
             and_then (getitem LABELS key) (\<lambda>label.
             Inr (label, series_get df p key (Str DASH)))) keys)) (\<lambda>table_rows.
         and_then (series_item df p ''name'') (\<lambda>name.
         Inr (GroupTable name section table_rows)))))"

definition talents :: "dataframe \<Rightarrow> row \<Rightarrow> error + view" where
  "talents df p =
     and_then (getitem GROUPS ''Talents'') (\<lambda>keys.
     and_then (collect (map (\<lambda>key.
         let val = talent_to_stars (series_get df p key (Num 0)) False
         in and_then (getitem LABELS key) (\<lambda>label. Inr (label, val))) keys)) (\<lambda>table_rows.
     and_then (series_item df p ''name'') (\<lambda>name.
     Inr (TalentTable name table_rows))))"

definition render_tabs :: "dataframe \<Rightarrow> string \<Rightarrow> string option \<Rightarrow> error + view" where
  "render_tabs df tab search =
     (case player_name_of search of
        None \<Rightarrow> Inr SelectPlayer
      | Some player_name \<Rightarrow>
          if player_name = [] then Inr SelectPlayer
          else and_then (getcol df ''name'') (\<lambda>names.
            case filter (\<lambda>r. name_of r = Str player_name) (rows df) of
              [] \<Rightarrow> Inr (PlayerNotFound player_name)
            | p # others \<Rightarrow>
                if tab = ''overview'' then overview df p
                else if tab \<in> set [''rally'', ''volley'', ''serve'', ''special'', ''physique'']
                  then group_table df p tab
                else if tab = ''talents'' then talents df p
                else if tab = ''compare'' then
                  and_then (series_item df p ''name'') (\<lambda>name. Inr (CompareForm names name))
                else Inr InvalidTab))"

section \<open>The comparison callback\<close>

text \<open>
  The result: the placeholder, or the rows of \<^verbatim>\<open>comp_df\<close> (attribute label, value and
  player tag; those of the first player, then those of the second) from which the
  radar is drawn, the head of the table and its rows.
\<close>

datatype comparison =
    SelectTwoPlayers
  | Comparison "(string \<times> cell \<times> string) list" "string \<times> string \<times> string"
      "(string \<times> cell \<times> cell) list"

definition truthy :: "string option \<Rightarrow> bool" where
  "truthy s = (case s of None \<Rightarrow> False | Some t \<Rightarrow> t \<noteq> [])"

definition first_named :: "dataframe \<Rightarrow> string \<Rightarrow> error + row" where
  "first_named df n =
     and_then (getcol df ''name'') (\<lambda>names.
       case filter (\<lambda>r. name_of r = Str n) (rows df) of
         [] \<Rightarrow> Inl IndexError
       | p # others \<Rightarrow> Inr p)"

definition radar_frame :: "dataframe \<Rightarrow> row \<Rightarrow> string \<Rightarrow> error + (string \<times> cell \<times> string) list" where
  "radar_frame df p tag =
     and_then (collect (map (getitem LABELS) radar_attrs)) (\<lambda>labels.
       Inr (map (\<lambda>(label, a). (label, series_get df p a (Num 0), tag))
              (zip labels radar_attrs)))"

definition compare_players ::
  "dataframe \<Rightarrow> string option \<Rightarrow> string option \<Rightarrow> error + comparison" where
  "compare_players df a b =
     (case (a, b) of
        (Some a', Some b') \<Rightarrow>
          if a' = [] \<or> b' = [] then Inr SelectTwoPlayers
          else and_then (first_named df a') (\<lambda>p1.
               and_then (first_named df b') (\<lambda>p2.
               and_then (radar_frame df p1 a') (\<lambda>df1.
               and_then (radar_frame df p2 b') (\<lambda>df2.
               and_then (collect (map (\<lambda>attr.
                   and_then (getitem LABELS attr) (\<lambda>label.
                   Inr (label, series_get df p1 attr (Str DASH),
                        series_get df p2 attr (Str DASH)))) radar_attrs)) (\<lambda>table_rows.
               Inr (Comparison (df1 @ df2) (''Attribute'', a', b') table_rows))))))
      | _ \<Rightarrow> Inr SelectTwoPlayers)"

text \<open>The comparison with the two players exchanged, as the specification words it.\<close>

definition swapped :: "comparison \<Rightarrow> comparison" where
  "swapped c =
     (case c of
        SelectTwoPlayers \<Rightarrow> SelectTwoPlayers
      | Comparison radar (h, ha, hb) table_rows \<Rightarrow>
          Comparison (drop (length radar_attrs) radar @ take (length radar_attrs) radar)
            (h, hb, ha) (map (\<lambda>(label, x, y). (label, y, x)) table_rows))"

definition series_of :: "string \<Rightarrow> (string \<times> cell \<times> string) list \<Rightarrow> (string \<times> cell) list" where
  "series_of tag radar = map (\<lambda>(label, v, t). (label, v)) (filter (\<lambda>(label, v, t). t = tag) radar)"

section \<open>A sample collection\<close>

text \<open>
  Three raw records, the third a second "Bob", and the table loaded from them. Only the
  second record has the attributes \<^verbatim>\<open>fh_power\<close> and \<^verbatim>\<open>srv_power\<close>. "Eva" is a
  record whose style is the empty text, "Zoe" one whose name has a letter outside ASCII
  (U+00EB, two bytes).
\<close>

definition raw_sample :: "row list" where
  "raw_sample =
     [[(''name'', Str ''Bob''), (''style'', Str ''Defensive''), (''hand'', Str ''R''),
       (''height'', Num 180), (''weight'', Num 75), (''speed'', Num 40)],
      [(''name'', Str ''Ana''), (''style'', Str ''Aggressive''), (''hand'', Str ''Zurdo''),
       (''height'', Num 170), (''weight'', Num 60), (''speed'', Num 70),
       (''fh_power'', Num 50), (''srv_power'', Num 60)],
      [(''name'', Str ''Bob''), (''style'', Str ''Aggressive''), (''hand'', Str ''L''),
       (''height'', Num 190), (''weight'', Num 85), (''speed'', Num 90)]]"

definition bob :: row where
  "bob =
     [(''name'', Str ''Bob''), (''style'', Str ''Defensive''), (''hand'', Str ''Right''),
      (''height'', Num 180), (''weight'', Num 75), (''speed'', Num 40)]"

definition ana :: row where
  "ana =
     [(''name'', Str ''Ana''), (''style'', Str ''Aggressive''), (''hand'', Str ''Left''),
      (''height'', Num 170), (''weight'', Num 60), (''speed'', Num 70),
      (''fh_power'', Num 50), (''srv_power'', Num 60)]"

definition eva :: row where
  "eva =
     [(''name'', Str ''Eva''), (''style'', Str ''''), (''hand'', Str ''Right''),
      (''height'', Num 175), (''weight'', Num 65), (''speed'', Num 55)]"

definition zoe :: row where
  "zoe =
     [(''name'', Str [CHR ''Z'', CHR ''o'', CHR 0xC3, CHR 0xAB]), (''style'', Str ''Defensive''),
      (''hand'', Str ''Left''), (''height'', Num 168), (''weight'', Num 58),
      (''speed'', Num 66)]"

definition sample_columns :: "string list" where
  "sample_columns =
     [''name'', ''style'', ''hand'', ''height'', ''weight'', ''speed'',
      ''fh_power'', ''srv_power'']"

definition table_sample :: dataframe where
  "table_sample = \<lparr>columns = sample_columns, rows = [bob, ana]\<rparr>"

section \<open>Properties of the talent transform\<close>

lemma str_mul_neg: "v \<le> 0 \<Longrightarrow> str_mul s v = []"
  by (simp add: str_mul_def)

lemma str_mul_STAR_not_DASH: "str_mul STAR v \<noteq> DASH"
proof (cases "nat v")
  case 0
  then show ?thesis by (simp add: str_mul_def DASH_def)
next
  case (Suc n)
  show ?thesis
  proof (cases n)
    case 0
    with Suc show ?thesis by (simp add: str_mul_def DASH_def STAR_def)
  next
    case (Suc m)
    with \<open>nat v = Suc n\<close> have "length (str_mul STAR v) \<ge> 6"
      by (simp add: str_mul_def STAR_def)
    then show ?thesis by (auto simp: DASH_def)
  qed
qed

text \<open>
  C3. The talent transform on the listed inputs: 0 gives the dash, 1 gives one star,
  5 gives two stars, the text "bad" is coerced to 0 and gives the dash (a value, no
  exception), and 5 with \<open>max_one\<close> set gives one star.
\<close>

theorem C3_talent_to_stars_examples:
  "talent_to_stars (Num 0) False = DASH
   \<and> talent_to_stars (Num 1) False = STAR
   \<and> talent_to_stars (Num 5) False = STAR @ STAR
   \<and> py_int (Str ''bad'') = None
   \<and> talent_to_stars (Str ''bad'') False = DASH
   \<and> talent_to_stars (Num 5) True = STAR"
  by (simp add: talent_to_stars_def py_int_def int_of_str_def strip_def is_space_def
      int_literal_def is_digit_def str_mul_def numeral_2_eq_2)

text \<open>
  C10. For a strictly negative integer and \<open>max_one\<close> unset the transform returns the
  empty text, which is neither the dash nor a star: the value is only bounded from
  above, and among the integers exactly 0 gives the dash.
\<close>

theorem C10_talent_to_stars_negative:
  "v < 0 \<Longrightarrow>
     talent_to_stars (Num v) False = []
     \<and> talent_to_stars (Num v) False \<noteq> DASH
     \<and> talent_to_stars (Num v) False \<noteq> STAR
     \<and> (\<forall>w m. talent_to_stars (Num w) m = DASH \<longleftrightarrow> w = 0)"
proof -
  assume neg: "v < 0"
  have empty: "talent_to_stars (Num v) False = []"
    using neg by (simp add: talent_to_stars_def py_int_def str_mul_neg)
  have dash: "talent_to_stars (Num w) m = DASH \<longleftrightarrow> w = 0" for w m
    by (auto simp: talent_to_stars_def py_int_def Let_def str_mul_STAR_not_DASH min_def)
  from empty dash show ?thesis by (simp add: DASH_def STAR_def)
qed

theorem C10_talent_to_stars_negative_witness:
  "(-3::int) < 0 \<and> talent_to_stars (Num (-3)) False = []
   \<and> talent_to_stars (Num (-3)) False \<noteq> DASH"
  using C10_talent_to_stars_negative [of "-3"] by (simp add: DASH_def)


section \<open>Properties of the loaded table\<close>

lemma keep_first_subseq: "subseq (keep_first f seen xs) xs"
  by (induction xs arbitrary: seen) auto

lemma keep_first_set: "f ` set (keep_first f seen xs) = f ` set xs - set seen"
  by (induction xs arbitrary: seen) auto

lemma keep_first_distinct: "distinct (map f (keep_first f seen xs))"
proof (induction xs arbitrary: seen)
  case Nil
  show ?case by simp
next
  case (Cons x xs)
  have "f x \<notin> f ` set (keep_first f (f x # seen) xs)"
    by (simp add: keep_first_set)
  with Cons show ?case by auto
qed

lemma keep_first_find:
  "r \<in> set (keep_first f seen xs) \<Longrightarrow> find (\<lambda>x. f x = f r) xs = Some r"
proof (induction xs arbitrary: seen)
  case Nil
  then show ?case by simp
next
  case (Cons x xs)
  show ?case
  proof (cases "f x = f r")
    case True
    have "f x \<notin> f ` set (keep_first f (f x # seen) xs)"
      by (simp add: keep_first_set)
    with True Cons.prems show ?thesis
      using keep_first_set [of f seen xs] by (auto split: if_splits)
  next
    case False
    with Cons show ?thesis by (auto split: if_splits)
  qed
qed

text \<open>
  Read from the left: a record is kept exactly when no record before it has its key.
\<close>

lemma keep_first_snoc:
  "keep_first f seen (xs @ [x]) =
     keep_first f seen xs @ (if f x \<in> set seen \<union> f ` set xs then [] else [x])"
  by (induction xs arbitrary: seen) auto

lemma name_of_normalize_hand_row: "name_of (normalize_hand_row r) = name_of r"
  by (simp add: name_of_def normalize_hand_row_def cell_at_def update_conv')

lemma hand_of_normalize_hand_row:
  "cell_at (normalize_hand_row r) ''hand'' = normalize_hand (cell_at r ''hand'')"
  by (simp add: normalize_hand_row_def cell_at_def update_conv')

lemma load_rows:
  "load data = Inr df \<Longrightarrow>
     rows df = map normalize_hand_row (keep_first name_of [] data)
     \<and> ''name'' \<in> set (columns df) \<and> ''hand'' \<in> set (columns df)"
  by (auto simp: load_def drop_duplicates_def DataFrame_def name_of_def [abs_def]
      split: if_splits sum.splits)

lemma load_distinct_names: "load data = Inr df \<Longrightarrow> distinct (map name_of (rows df))"
proof -
  assume "load data = Inr df"
  then have "map name_of (rows df) = map name_of (keep_first name_of [] data)"
    by (simp add: load_rows name_of_normalize_hand_row comp_def)
  then show ?thesis by (simp add: keep_first_distinct)
qed

lemma load_raw_sample: "load raw_sample = Inr table_sample"
  by (simp add: load_def drop_duplicates_def DataFrame_def normalize_hand_row_def
      normalize_hand_def fillna_def replace_cell_def HAND_REPLACE_def cell_at_def
      raw_sample_def table_sample_def bob_def ana_def sample_columns_def)

text \<open>
  C2. Every spelling listed in the replacement table is normalized to "Left" or to
  "Right"; a missing hand is normalized to "Left"; so is the code "U". The load applies
  this normalization to the hand of every record it keeps.
\<close>

theorem C2_hand_normalization:
  "(\<forall>k \<in> set (map fst HAND_REPLACE).
      normalize_hand (Str k) = Str ''Left'' \<or> normalize_hand (Str k) = Str ''Right'')
   \<and> normalize_hand NA = Str ''Left''
   \<and> normalize_hand (Str ''U'') = Str ''Left''
   \<and> (\<forall>data df. load data = Inr df \<longrightarrow>
        map (\<lambda>r. cell_at r ''hand'') (rows df) =
        map (\<lambda>r. normalize_hand (cell_at r ''hand'')) (keep_first name_of [] data))"
proof -
  have "\<forall>k \<in> set (map fst HAND_REPLACE).
      normalize_hand (Str k) = Str ''Left'' \<or> normalize_hand (Str k) = Str ''Right''"
    by (simp add: HAND_REPLACE_def normalize_hand_def fillna_def replace_cell_def)
  moreover have "normalize_hand NA = Str ''Left''"
    by (simp add: HAND_REPLACE_def normalize_hand_def fillna_def replace_cell_def)
  moreover have "normalize_hand (Str ''U'') = Str ''Left''"
    by (simp add: HAND_REPLACE_def normalize_hand_def fillna_def replace_cell_def)
  moreover have "map (\<lambda>r. cell_at r ''hand'') (rows df) =
        map (\<lambda>r. normalize_hand (cell_at r ''hand'')) (keep_first name_of [] data)"
    if "load data = Inr df" for data df
    using load_rows [OF that] by (simp add: hand_of_normalize_hand_row comp_def)
  ultimately show ?thesis by blast
qed

theorem C2_hand_normalization_witness:
  "''Diestro'' \<in> set (map fst HAND_REPLACE)
   \<and> normalize_hand (Str ''Diestro'') = Str ''Right''
   \<and> load [[(''name'', Str ''A''), (''hand'', Str ''Zurdo'')], [(''name'', Str ''B'')]]
       = Inr \<lparr>columns = [''name'', ''hand''],
              rows = [[(''name'', Str ''A''), (''hand'', Str ''Left'')],
                      [(''name'', Str ''B''), (''hand'', Str ''Left'')]]\<rparr>
   \<and> map (\<lambda>r. cell_at r ''hand'')
         [[(''name'', Str ''A''), (''hand'', Str ''Left'')],
          [(''name'', Str ''B''), (''hand'', Str ''Left'')]]
       = [Str ''Left'', Str ''Left'']"
proof -
  have mem: "''Diestro'' \<in> set (map fst HAND_REPLACE)"
    by (simp add: HAND_REPLACE_def)
  have ld: "load [[(''name'', Str ''A''), (''hand'', Str ''Zurdo'')], [(''name'', Str ''B'')]]
       = Inr \<lparr>columns = [''name'', ''hand''],
              rows = [[(''name'', Str ''A''), (''hand'', Str ''Left'')],
                      [(''name'', Str ''B''), (''hand'', Str ''Left'')]]\<rparr>"
    by (simp add: load_def drop_duplicates_def DataFrame_def normalize_hand_row_def
        normalize_hand_def fillna_def replace_cell_def HAND_REPLACE_def cell_at_def)
  from C2_hand_normalization mem
  have "normalize_hand (Str ''Diestro'') = Str ''Left''
        \<or> normalize_hand (Str ''Diestro'') = Str ''Right''"
    by blast
  moreover have "normalize_hand (Str ''Diestro'') \<noteq> Str ''Left''"
    by (simp add: HAND_REPLACE_def normalize_hand_def fillna_def replace_cell_def)
  ultimately have "normalize_hand (Str ''Diestro'') = Str ''Right''" by blast
  with mem ld show ?thesis by (simp add: cell_at_def)
qed

text \<open>
  C5. When the load succeeds, the table holds the records \<open>kept\<close> (with the hand
  normalized), where \<open>kept\<close> is a subsequence of the raw collection, so in the raw
  relative order; no two kept records share a name; every raw name is the name of a kept
  record; and each kept record is the first raw record of its name.
\<close>

theorem C5_one_record_per_name:
  assumes "load data = Inr df"
  shows "\<exists>kept. rows df = map normalize_hand_row kept
           \<and> map name_of (rows df) = map name_of kept
           \<and> subseq kept data
           \<and> distinct (map name_of kept)
           \<and> name_of ` set kept = name_of ` set data
           \<and> (\<forall>r \<in> set kept. find (\<lambda>x. name_of x = name_of r) data = Some r)"
proof (intro exI conjI)
  show "rows df = map normalize_hand_row (keep_first name_of [] data)"
    using assms by (simp add: load_rows)
  then show "map name_of (rows df) = map name_of (keep_first name_of [] data)"
    by (simp add: name_of_normalize_hand_row comp_def)
  show "subseq (keep_first name_of [] data) data"
    by (rule keep_first_subseq)
  show "distinct (map name_of (keep_first name_of [] data))"
    by (rule keep_first_distinct)
  show "name_of ` set (keep_first name_of [] data) = name_of ` set data"
    by (simp add: keep_first_set)
  show "\<forall>r \<in> set (keep_first name_of [] data).
          find (\<lambda>x. name_of x = name_of r) data = Some r"
    by (blast intro: keep_first_find)
qed

theorem C5_one_record_per_name_witness:
  "load raw_sample = Inr table_sample
   \<and> (\<exists>kept. rows table_sample = map normalize_hand_row kept
          \<and> subseq kept raw_sample
          \<and> distinct (map name_of kept)
          \<and> name_of ` set kept = name_of ` set raw_sample)
   \<and> map name_of raw_sample = [Str ''Bob'', Str ''Ana'', Str ''Bob'']
   \<and> map name_of (rows table_sample) = [Str ''Bob'', Str ''Ana'']"
proof -
  from C5_one_record_per_name [OF load_raw_sample]
  have "\<exists>kept. rows table_sample = map normalize_hand_row kept
          \<and> subseq kept raw_sample
          \<and> distinct (map name_of kept)
          \<and> name_of ` set kept = name_of ` set raw_sample"
    by blast
  moreover have "map name_of raw_sample = [Str ''Bob'', Str ''Ana'', Str ''Bob'']"
    by (simp add: raw_sample_def name_of_def cell_at_def)
  moreover have "map name_of (rows table_sample) = [Str ''Bob'', Str ''Ana'']"
    by (simp add: table_sample_def bob_def ana_def name_of_def cell_at_def)
  ultimately show ?thesis using load_raw_sample by blast
qed

section \<open>Properties of the player list\<close>

lemma zip_mask_filter: "map snd (filter fst (zip (map g xs) xs)) = filter g xs"
  by (induction xs) auto

lemma boolean_index_map:
  "boolean_index (map g (rows p)) p = p\<lparr>rows := filter g (rows p)\<rparr>"
  by (simp add: boolean_index_def zip_mask_filter)

lemma filter_search_rows:
  assumes "filter_search re search p = Inr q"
  shows "q = p\<lparr>rows := filter (\<lambda>r. \<forall>s. search = Some s \<and> s \<noteq> [] \<longrightarrow> name_matches re s (name_of r)) (rows p)\<rparr>"
proof (cases search)
  case None
  with assms show ?thesis by (simp add: filter_search_def)
next
  case (Some s)
  show ?thesis
  proof (cases "s = []")
    case True
    with Some assms show ?thesis by (simp add: filter_search_def)
  next
    case False
    from assms Some False obtain pc where
      pc: "re s = Inr pc" and
      q: "q = boolean_index (map (contains_in pc) (map (\<lambda>r. cell_at r ''name'') (rows p))) p"
      by (auto simp: filter_search_def and_then_def getcol_def str_contains_def
          split: if_splits sum.splits)
    from pc have "name_matches re s c = contains_in pc c" for c
      by (simp add: name_matches_def)
    with q Some False show ?thesis
      by (simp add: boolean_index_map name_of_def comp_def)
  qed
qed

lemma filter_equal_rows:
  assumes "filter_equal key wanted p = Inr q"
  shows "q = p\<lparr>rows := filter (\<lambda>r. \<forall>s. wanted = Some s \<and> s \<noteq> [] \<longrightarrow> cell_at r key = Str s) (rows p)\<rparr>"
proof (cases wanted)
  case None
  with assms show ?thesis by (simp add: filter_equal_def)
next
  case (Some s)
  show ?thesis
  proof (cases "s = []")
    case True
    with Some assms show ?thesis by (simp add: filter_equal_def)
  next
    case False
    from assms Some False have
      "q = boolean_index (map (\<lambda>c. c = Str s) (map (\<lambda>r. cell_at r key) (rows p))) p"
      by (auto simp: filter_equal_def and_then_def getcol_def split: if_splits)
    with Some False show ?thesis by (simp add: boolean_index_map comp_def)
  qed
qed

lemma filter_min_speed_rows:
  assumes "filter_min_speed min_speed p = Inr q"
  shows "q = p\<lparr>rows := filter (\<lambda>r. \<forall>m. min_speed = Some m \<and> m \<noteq> 0 \<longrightarrow> (\<exists>v. cell_at r ''speed'' = Num v \<and> m \<le> v)) (rows p)\<rparr>"
proof (cases min_speed)
  case None
  with assms show ?thesis by (simp add: filter_min_speed_def)
next
  case (Some m)
  show ?thesis
  proof (cases "m = 0")
    case True
    with Some assms show ?thesis by (simp add: filter_min_speed_def)
  next
    case False
    from assms Some False have
      "q = boolean_index (map (\<lambda>c. case c of Num v \<Rightarrow> m \<le> v | _ \<Rightarrow> False) (map (\<lambda>r. cell_at r ''speed'') (rows p))) p"
      by (auto simp: filter_min_speed_def and_then_def getcol_def series_ge_def split: if_splits)
    moreover have "(case c of Num v \<Rightarrow> m \<le> v | _ \<Rightarrow> False) = (\<exists>v. c = Num v \<and> m \<le> v)" for c
      by (cases c) auto
    ultimately show ?thesis using Some False by (simp add: boolean_index_map comp_def)
  qed
qed

lemma sort_values_rows:
  "sort_values ''name'' p = Inr q \<Longrightarrow> q = p\<lparr>rows := sort_key (\<lambda>r. name_key (name_of r)) (rows p)\<rparr>"
  by (auto simp: sort_values_def and_then_def getcol_def name_of_def split: if_splits)

lemma criteria_hold_iff:
  "criteria_hold re search style hand min_speed r \<longleftrightarrow>
     (\<forall>s. search = Some s \<and> s \<noteq> [] \<longrightarrow> name_matches re s (name_of r))
     \<and> (\<forall>s. style = Some s \<and> s \<noteq> [] \<longrightarrow> cell_at r ''style'' = Str s)
     \<and> (\<forall>h. hand = Some h \<and> h \<noteq> [] \<longrightarrow> cell_at r ''hand'' = Str h)
     \<and> (\<forall>m. min_speed = Some m \<and> m \<noteq> 0 \<longrightarrow>
           (\<exists>v. cell_at r ''speed'' = Num v \<and> m \<le> v))"
  by (auto simp: criteria_hold_def split: option.splits cell.splits)

lemma players_rows:
  assumes "update_player_list_players re df search style hand min_speed = Inr players"
  shows "players = df\<lparr>rows := sort_key (\<lambda>r. name_key (name_of r))
           (filter (criteria_hold re search style hand min_speed) (rows df))\<rparr>"
proof -
  from assms obtain p1 p2 p3 p4 where
    s1: "filter_search re search df = Inr p1" and
    s2: "filter_equal ''style'' style p1 = Inr p2" and
    s3: "filter_equal ''hand'' hand p2 = Inr p3" and
    s4: "filter_min_speed min_speed p3 = Inr p4" and
    s5: "sort_values ''name'' p4 = Inr players"
    by (auto simp: update_player_list_players_def and_then_def split: sum.splits)
  show ?thesis
    unfolding sort_values_rows [OF s5] filter_min_speed_rows [OF s4]
      filter_equal_rows [OF s3] filter_equal_rows [OF s2] filter_search_rows [OF s1]
    by (simp add: criteria_hold_iff [abs_def] conj_ac)
qed

lemma same_records_set: "same_records p q \<Longrightarrow> set (rows p) = set (rows q)"
  by (auto simp: same_records_def dest: mset_eq_setD)

lemma same_records_filter:
  "same_records p q \<Longrightarrow>
     same_records (p\<lparr>rows := filter P (rows p)\<rparr>) (q\<lparr>rows := filter P (rows q)\<rparr>)"
  by (simp add: same_records_def distinct_map_filter)

lemma and_then_rel:
  assumes "rel_sum (=) R m m'" and "\<And>x y. R x y \<Longrightarrow> rel_sum (=) S (f x) (f y)"
  shows "rel_sum (=) S (and_then m f) (and_then m' f)"
  using assms by (cases m; cases m') (auto simp: and_then_def)

lemma getcol_same:
  "same_records p q \<Longrightarrow>
     (getcol p k = Inl e \<longleftrightarrow> getcol q k = Inl e)
     \<and> (getcol p k = Inr (map (\<lambda>r. cell_at r k) (rows p)) \<longleftrightarrow> getcol q k = Inr (map (\<lambda>r. cell_at r k) (rows q)))"
  by (auto simp: getcol_def same_records_def)

lemma filter_search_same:
  assumes "same_records p q"
  shows "rel_sum (=) same_records (filter_search re search p) (filter_search re search q)"
proof -
  have s: "set (rows p) = set (rows q)" using assms by (rule same_records_set)
  have c: "set (columns p) = set (columns q)" using assms by (simp add: same_records_def)
  show ?thesis
    using same_records_filter [OF assms] assms
    by (auto simp: filter_search_def and_then_def getcol_def str_contains_def c
        list_ex_iff list_all_iff s boolean_index_map comp_def
        split: option.splits sum.splits)
qed

lemma filter_equal_same:
  assumes "same_records p q"
  shows "rel_sum (=) same_records (filter_equal key wanted p) (filter_equal key wanted q)"
proof -
  have c: "set (columns p) = set (columns q)" using assms by (simp add: same_records_def)
  show ?thesis
    using same_records_filter [OF assms] assms
    by (auto simp: filter_equal_def and_then_def getcol_def c boolean_index_map comp_def
        split: option.splits)
qed

lemma filter_min_speed_same:
  assumes "same_records p q"
  shows "rel_sum (=) same_records (filter_min_speed m p) (filter_min_speed m q)"
proof -
  have s: "set (rows p) = set (rows q)" using assms by (rule same_records_set)
  have c: "set (columns p) = set (columns q)" using assms by (simp add: same_records_def)
  show ?thesis
    using same_records_filter [OF assms] assms
    by (auto simp: filter_min_speed_def and_then_def getcol_def series_ge_def c
        list_ex_iff s boolean_index_map comp_def
        split: option.splits)
qed

lemma filter_key_singleton:
  "distinct (map f zs) \<Longrightarrow> k \<in> set zs \<Longrightarrow> filter (\<lambda>x. f k = f x) zs = [k]"
proof (induction zs)
  case Nil
  then show ?case by simp
next
  case (Cons z zs)
  show ?case
  proof (cases "k = z")
    case True
    with Cons.prems have "filter (\<lambda>x. f k = f x) zs = []"
      by (auto simp: filter_empty_conv)
    with True show ?thesis by simp
  next
    case False
    with Cons.prems have kz: "k \<in> set zs" by simp
    with Cons.prems have "f k \<noteq> f z" by (auto simp: image_iff)
    with kz Cons show ?thesis by simp
  qed
qed

lemma sort_key_perm:
  assumes "mset xs = mset ys" and "distinct (map f ys)"
  shows "sort_key f xs = sort_key f ys"
proof (rule properties_for_sort_key)
  show "mset (sort_key f ys) = mset xs" using assms by simp
  show "sorted (map f (sort_key f ys))" by simp
  fix k assume k: "k \<in> set (sort_key f ys)"
  have "mset (map f xs) = mset (map f ys)" using assms(1) by simp
  then have "distinct (map f xs) \<longleftrightarrow> distinct (map f ys)"
    by (rule mset_eq_imp_distinct_iff)
  with assms(2) have dx: "distinct (map f xs)" by simp
  have "distinct (map f (sort_key f ys))" using assms(2) by (simp add: distinct_map)
  with k have "filter (\<lambda>x. f k = f x) (sort_key f ys) = [k]"
    by (rule filter_key_singleton [rotated])
  moreover have "k \<in> set xs" using k assms(1) by (auto dest: mset_eq_setD)
  with dx have "filter (\<lambda>x. f k = f x) xs = [k]" by (rule filter_key_singleton)
  ultimately show "filter (\<lambda>x. f k = f x) (sort_key f ys) = filter (\<lambda>x. f k = f x) xs"
    by simp
qed

lemma name_key_inj: "name_key a = name_key b \<Longrightarrow> a = b"
  by (cases a; cases b) (simp_all add: name_key_def)

lemma sort_values_same:
  assumes "same_records p q"
  shows "map_sum id rows (sort_values ''name'' p) = map_sum id rows (sort_values ''name'' q)"
proof -
  have s: "set (rows p) = set (rows q)" using assms by (rule same_records_set)
  have c: "set (columns p) = set (columns q)" using assms by (simp add: same_records_def)
  have "distinct (map (\<lambda>r. name_key (cell_at r ''name'')) (rows q))"
    using assms name_key_inj
    by (auto simp: same_records_def distinct_map name_of_def inj_on_def)
  with assms have "sort_key (\<lambda>r. name_key (cell_at r ''name'')) (rows p)
      = sort_key (\<lambda>r. name_key (cell_at r ''name'')) (rows q)"
    by (intro sort_key_perm) (simp_all add: same_records_def)
  then show ?thesis
    by (auto simp: sort_values_def and_then_def getcol_def c list_ex_iff s)
qed

lemma players_same:
  assumes "same_records p q"
  shows "map_sum id rows (update_player_list_players re p search style hand min_speed)
       = map_sum id rows (update_player_list_players re q search style hand min_speed)"
proof -
  have "rel_sum (=) (\<lambda>x y. rows x = rows y) 
          (update_player_list_players re p search style hand min_speed)
          (update_player_list_players re q search style hand min_speed)"
    unfolding update_player_list_players_def
    apply (rule and_then_rel [OF filter_search_same [OF assms]])
    apply (rule and_then_rel [OF filter_equal_same])
     apply assumption
    apply (rule and_then_rel [OF filter_equal_same])
     apply assumption
    apply (rule and_then_rel [OF filter_min_speed_same])
     apply assumption
    subgoal for x y xa ya xb yb xc yc
      using sort_values_same [of xc yc]
      by (cases "sort_values ''name'' xc"; cases "sort_values ''name'' yc") auto
    done
  then show ?thesis
    by (cases "update_player_list_players re p search style hand min_speed";
        cases "update_player_list_players re q search style hand min_speed") auto
qed

lemma players_sorted:
  "update_player_list_players re df search style hand min_speed = Inr players \<Longrightarrow>
     sorted (map (\<lambda>r. name_key (name_of r)) (rows players))"
  by (drule players_rows) simp


text \<open>
  On a search text of ASCII characters none of which is special, the pattern that
  \<open>re_fragment\<close> compiles finds exactly the literal occurrences, letter case apart.
\<close>

lemma those_map_Literal:
  "set s \<inter> set RE_SPECIAL = {} \<Longrightarrow> those (map re_item_of s) = Some (map Literal s)"
proof (induction s)
  case Nil
  then show ?case by simp
next
  case (Cons c s)
  then have "re_item_of c = Some (Literal c)"
    by (auto simp: re_item_of_def RE_SPECIAL_def)
  with Cons show ?case by simp
qed

lemma match_here_Literal:
  "match_here (map Literal s) n \<longleftrightarrow> prefix (map lower s) (map lower n)"
proof (induction s arbitrary: n)
  case Nil
  then show ?case by simp
next
  case (Cons c s)
  then show ?case by (cases n) auto
qed

lemma re_search_Literal:
  "re_search (map Literal s) n \<longleftrightarrow> sublist (map lower s) (map lower n)"
proof (induction n)
  case Nil
  then show ?case by (simp add: match_here_Literal)
next
  case (Cons d n)
  have "re_search (map Literal s) (d # n)
      \<longleftrightarrow> prefix (map lower s) (map lower (d # n)) \<or> sublist (map lower s) (map lower n)"
    using Cons by (simp add: match_here_Literal del: match_here.simps)
  then show ?case by (simp add: sublist_Cons_right)
qed

lemma plain_search_is_literal:
  assumes "is_ascii s" and "set s \<inter> set RE_SPECIAL = {}"
  shows "name_matches re_fragment s (Str n) \<longleftrightarrow> literal_contains s n"
  using assms
  by (simp add: name_matches_def re_fragment_def those_map_Literal contains_in_def
      re_search_Literal literal_contains_def)

text \<open>
  The selection returns on a table that has the four columns, where no name is a
  number and no speed is a text, for a search text that compiles.
\<close>

lemma filter_search_returns:
  assumes "''name'' \<in> set (columns p)"
    and "\<forall>r \<in> set (rows p). \<not> is_num (name_of r)"
    and "\<forall>s. search = Some s \<longrightarrow> (\<exists>found. re s = Inr found)"
  shows "\<exists>q. filter_search re search p = Inr q"
proof (cases search)
  case None
  then show ?thesis by (simp add: filter_search_def)
next
  case (Some s)
  with assms(3) obtain found where "re s = Inr found" by blast
  with Some assms(1,2) show ?thesis
    by (simp add: filter_search_def and_then_def getcol_def str_contains_def
        list_ex_iff name_of_def)
qed

lemma filter_equal_returns:
  "key \<in> set (columns p) \<Longrightarrow> \<exists>q. filter_equal key wanted p = Inr q"
  by (simp add: filter_equal_def and_then_def getcol_def split: option.splits)

lemma filter_min_speed_returns:
  "''speed'' \<in> set (columns p) \<Longrightarrow> \<forall>r \<in> set (rows p). \<not> is_text (cell_at r ''speed'') \<Longrightarrow>
     \<exists>q. filter_min_speed m p = Inr q"
  by (simp add: filter_min_speed_def and_then_def getcol_def series_ge_def list_ex_iff
      split: option.splits)

lemma sort_values_returns:
  "''name'' \<in> set (columns p) \<Longrightarrow> \<forall>r \<in> set (rows p). \<not> is_num (name_of r) \<Longrightarrow>
     \<exists>q. sort_values ''name'' p = Inr q"
  by (simp add: sort_values_def and_then_def getcol_def list_ex_iff name_of_def)

lemma filtered_frame:
  "q = p\<lparr>rows := filter P (rows p)\<rparr> \<Longrightarrow>
     columns q = columns p \<and> set (rows q) \<subseteq> set (rows p)"
  by auto

lemma players_return:
  assumes cols: "{''name'', ''style'', ''hand'', ''speed''} \<subseteq> set (columns df)"
    and names: "\<forall>r \<in> set (rows df). \<not> is_num (name_of r)"
    and speeds: "\<forall>r \<in> set (rows df). \<not> is_text (cell_at r ''speed'')"
    and pat: "\<forall>s. search = Some s \<longrightarrow> (\<exists>found. re s = Inr found)"
  shows "\<exists>players. update_player_list_players re df search style hand min_speed = Inr players"
proof -
  obtain p1 where s1: "filter_search re search df = Inr p1"
    using filter_search_returns [of df search re] cols names pat by auto
  note r1 = filter_search_rows [OF s1]
  have c1: "columns p1 = columns df" and sub1: "set (rows p1) \<subseteq> set (rows df)"
    using filtered_frame [OF r1] by auto
  from cols c1 obtain p2 where s2: "filter_equal ''style'' style p1 = Inr p2"
    using filter_equal_returns [of "''style''" p1] by auto
  note r2 = filter_equal_rows [OF s2]
  have c2: "columns p2 = columns df" and sub2: "set (rows p2) \<subseteq> set (rows df)"
    using filtered_frame [OF r2] c1 sub1 by auto
  from cols c2 obtain p3 where s3: "filter_equal ''hand'' hand p2 = Inr p3"
    using filter_equal_returns [of "''hand''" p2] by auto
  note r3 = filter_equal_rows [OF s3]
  have c3: "columns p3 = columns df" and sub3: "set (rows p3) \<subseteq> set (rows df)"
    using filtered_frame [OF r3] c2 sub2 by auto
  from cols c3 sub3 speeds obtain p4 where s4: "filter_min_speed min_speed p3 = Inr p4"
    using filter_min_speed_returns [of p3 min_speed] by auto
  note r4 = filter_min_speed_rows [OF s4]
  have c4: "columns p4 = columns df" and sub4: "set (rows p4) \<subseteq> set (rows df)"
    using filtered_frame [OF r4] c3 sub3 by auto
  from names sub4 have "\<forall>r \<in> set (rows p4). \<not> is_num (name_of r)" by blast
  with cols c4 obtain p5 where s5: "sort_values ''name'' p4 = Inr p5"
    using sort_values_returns [of p4] by auto
  from s1 s2 s3 s4 s5 show ?thesis
    by (simp add: update_player_list_players_def and_then_def)
qed

text \<open>
  So it does for every search text that \<^verbatim>\<open>re\<close> compiles, whatever characters the
  text and the names are made of.
\<close>

lemma players_return_sample:
  assumes "re s = Inr found"
  shows "\<exists>players.
           update_player_list_players re \<lparr>columns = sample_columns, rows = [zoe, bob, ana]\<rparr>
             (Some s) style hand min_speed = Inr players"
proof (rule players_return)
  show "{''name'', ''style'', ''hand'', ''speed''}
          \<subseteq> set (columns \<lparr>columns = sample_columns, rows = [zoe, bob, ana]\<rparr>)"
    by (simp add: sample_columns_def)
  show "\<forall>r \<in> set (rows \<lparr>columns = sample_columns, rows = [zoe, bob, ana]\<rparr>).
          \<not> is_num (name_of r)"
    by (simp add: is_num_def name_of_def cell_at_def zoe_def bob_def ana_def)
  show "\<forall>r \<in> set (rows \<lparr>columns = sample_columns, rows = [zoe, bob, ana]\<rparr>).
          \<not> is_text (cell_at r ''speed'')"
    by (simp add: is_text_def cell_at_def zoe_def bob_def ana_def)
  show "\<forall>t. Some s = Some t \<longrightarrow> (\<exists>found. re t = Inr found)"
    using assms by auto
qed

text \<open>The links of the rendered list are the selected rows, by name.\<close>

lemma links_of_players:
  assumes "update_player_list re df search style hand min_speed = Inr (PlayerLinks links)"
  shows "\<exists>players. update_player_list_players re df search style hand min_speed = Inr players
           \<and> map name_of (rows players) = map (\<lambda>l. Str (fst l)) links
           \<and> map snd links = map (\<lambda>l. ''/?player='' @ quote_plus (fst l)) links"
proof -
  from assms obtain players where
    p: "update_player_list_players re df search style hand min_speed = Inr players" and
    c: "collect (map player_link (rows players)) = Inr links"
    by (auto simp: update_player_list_def and_then_def split: sum.splits if_splits)
  have "collect (map player_link rs) = Inr ls \<Longrightarrow>
          map name_of rs = map (\<lambda>l. Str (fst l)) ls
          \<and> map snd ls = map (\<lambda>l. ''/?player='' @ quote_plus (fst l)) ls" for rs ls
  proof (induction rs arbitrary: ls)
    case Nil
    then show ?case by simp
  next
    case (Cons r rs)
    then show ?case
      by (auto simp: and_then_def player_link_def split: sum.splits cell.splits)
  qed
  with p c show ?thesis by blast
qed

lemmas sample_defs = table_sample_def sample_columns_def bob_def ana_def
lemmas players_defs = update_player_list_players_def filter_search_def filter_equal_def
  filter_min_speed_def sort_values_def and_then_def getcol_def cell_at_def name_key_def
  is_num_def is_text_def boolean_index_def series_ge_def str_contains_def re_fragment_def
  re_item_of_def RE_SPECIAL_def is_ascii_def contains_in_def lower_def

text \<open>
  C1, as stated, fails for a style that is present and empty: the callback tests
  \<^verbatim>\<open>if style:\<close>, so the empty text filters nothing. Asked for the style of "Eva",
  the empty one, it keeps "Ana" as well, whose style is another.
\<close>

theorem C1_empty_style_counterexample:
  "update_player_list_players re_fragment \<lparr>columns = sample_columns, rows = [eva, ana]\<rparr>
       None (Some '''') None None
     = Inr \<lparr>columns = sample_columns, rows = [ana, eva]\<rparr>
   \<and> cell_at eva ''style'' = Str '''' \<and> cell_at ana ''style'' = Str ''Aggressive''"
  by (simp add: players_defs sample_defs eva_def)

text \<open>
  C1, amended. Whenever the callback returns, with whatever \<^verbatim>\<open>re\<close> module, it keeps
  exactly the records that satisfy the conjunction of the constraints in force: a
  search text, a style or a hand constrains only when present and not empty (the style
  and the normalized hand by equality), the minimum speed only when present and not
  zero (a record needs a numeric speed of at least that much); a minimum speed of 0
  behaves as an absent one.
\<close>

theorem C1_filter_conjunction:
  assumes "update_player_list_players re df search style hand min_speed = Inr players"
  shows "columns players = columns df
     \<and> set (rows players) = {r \<in> set (rows df). criteria_hold re search style hand min_speed r}
     \<and> mset (rows players) = filter_mset (criteria_hold re search style hand min_speed) (mset (rows df))
     \<and> update_player_list_players re df search style hand (Some 0)
         = update_player_list_players re df search style hand None"
proof -
  note r = players_rows [OF assms]
  have "columns players = columns df" by (subst r) simp
  moreover have "set (rows players) = {r \<in> set (rows df). criteria_hold re search style hand min_speed r}"
    by (subst r) auto
  moreover have "mset (rows players) = filter_mset (criteria_hold re search style hand min_speed) (mset (rows df))"
    by (subst r) simp
  moreover have "update_player_list_players re df search style hand (Some 0)
         = update_player_list_players re df search style hand None"
    by (simp add: update_player_list_players_def filter_min_speed_def)
  ultimately show ?thesis by blast
qed

lemma sample_selection:
  "update_player_list_players re_fragment table_sample (Some ''an'') (Some ''Aggressive'') (Some ''Left'') (Some 50)
     = Inr (table_sample\<lparr>rows := [ana]\<rparr>)"
  by (simp add: players_defs sample_defs)

theorem C1_filter_conjunction_witness:
  "update_player_list_players re_fragment table_sample (Some ''an'') (Some ''Aggressive'') (Some ''Left'') (Some 50)
     = Inr (table_sample\<lparr>rows := [ana]\<rparr>)
   \<and> {ana} = {r \<in> set (rows table_sample).
         criteria_hold re_fragment (Some ''an'') (Some ''Aggressive'') (Some ''Left'') (Some 50) r}
   \<and> criteria_hold re_fragment (Some ''an'') (Some ''Aggressive'') (Some ''Left'') (Some 50) ana
   \<and> \<not> criteria_hold re_fragment (Some ''an'') (Some ''Aggressive'') (Some ''Left'') (Some 50) bob"
proof -
  from C1_filter_conjunction [OF sample_selection]
  have "{ana} = {r \<in> set (rows table_sample).
         criteria_hold re_fragment (Some ''an'') (Some ''Aggressive'') (Some ''Left'') (Some 50) r}"
    by simp
  moreover have "criteria_hold re_fragment (Some ''an'') (Some ''Aggressive'') (Some ''Left'') (Some 50) ana"
    by (simp add: criteria_hold_def name_matches_def name_of_def players_defs sample_defs)
  moreover have "\<not> criteria_hold re_fragment (Some ''an'') (Some ''Aggressive'') (Some ''Left'') (Some 50) bob"
    by (simp add: criteria_hold_def name_matches_def name_of_def players_defs sample_defs)
  ultimately show ?thesis using sample_selection by blast
qed

text \<open>
  C4. The search text is compiled as a regular expression, not taken as it stands: the
  text "." keeps every sample player though no name contains a dot, and "a.a" keeps
  "Ana" (both patterns and all names within \<open>re_fragment\<close>).
\<close>

theorem C4_dot_keeps_every_name:
  "update_player_list_players re_fragment table_sample (Some ''.'') None None None
     = Inr (table_sample\<lparr>rows := [ana, bob]\<rparr>)
   \<and> name_of ana = Str ''Ana'' \<and> \<not> literal_contains ''.'' ''Ana''
   \<and> name_of bob = Str ''Bob'' \<and> \<not> literal_contains ''.'' ''Bob''
   \<and> update_player_list_players re_fragment table_sample (Some ''a.a'') None None None
     = Inr (table_sample\<lparr>rows := [ana]\<rparr>)
   \<and> \<not> literal_contains ''a.a'' ''Ana''"
  apply (intro conjI)
  apply (simp add: players_defs sample_defs)
  apply (simp add: name_of_def players_defs sample_defs)
  apply (simp add: literal_contains_def lower_def sublist_Cons_right)
  apply (simp add: name_of_def players_defs sample_defs)
  apply (simp add: literal_contains_def lower_def sublist_Cons_right)
  apply (simp add: players_defs sample_defs)
  apply (simp add: literal_contains_def lower_def sublist_Cons_right)
  done

lemma sorted_text_keys: "sorted (map (\<lambda>s. name_key (Str s)) ns) \<longleftrightarrow> sorted ns"
  by (induction ns) (auto simp: name_key_def)

lemma players_sorted_texts:
  assumes "update_player_list_players re df search style hand min_speed = Inr players"
    and "map name_of (rows players) = map Str ns"
  shows "sorted ns"
proof -
  have "map (\<lambda>r. name_key (name_of r)) (rows players) = map name_key (map name_of (rows players))"
    by (simp add: comp_def)
  also have "\<dots> = map (\<lambda>s. name_key (Str s)) ns"
    by (simp add: assms(2) comp_def)
  finally show ?thesis
    using players_sorted [OF assms(1)] by (simp add: sorted_text_keys)
qed

lemma name_key_order:
  "(name_key (Str a) \<le> name_key (Str b) \<longleftrightarrow> a \<le> b)
   \<and> (name_key (Num i) \<le> name_key (Num j) \<longleftrightarrow> i \<le> j)
   \<and> name_key c \<le> name_key NA"
  by (cases c) (auto simp: name_key_def)

text \<open>
  C6. Whenever the callback returns, with whatever \<^verbatim>\<open>re\<close> module and for every
  criteria, its rows are in ascending order of the name (see \<open>name_key_order\<close>; when
  all the names are texts, in ascending order of the texts, compared by code points);
  and it gives the same result for two tables that hold the same records in different
  orders. It returns under the conditions of \<open>players_return\<close>.
\<close>

theorem C6_sorted_by_name:
  "(update_player_list_players re df search style hand min_speed = Inr players \<longrightarrow>
      sorted (map (\<lambda>r. name_key (name_of r)) (rows players))
      \<and> (\<forall>ns. map name_of (rows players) = map Str ns \<longrightarrow> sorted ns))
   \<and> (same_records df' df \<longrightarrow>
      map_sum id rows (update_player_list_players re df' search style hand min_speed)
      = map_sum id rows (update_player_list_players re df search style hand min_speed))"
proof (intro conjI impI allI)
  assume r: "update_player_list_players re df search style hand min_speed = Inr players"
  show "sorted (map (\<lambda>r. name_key (name_of r)) (rows players))"
    using r by (rule players_sorted)
  fix ns assume "map name_of (rows players) = map Str ns"
  with r show "sorted ns" by (rule players_sorted_texts)
next
  assume "same_records df' df"
  then show "map_sum id rows (update_player_list_players re df' search style hand min_speed)
      = map_sum id rows (update_player_list_players re df search style hand min_speed)"
    by (rule players_same)
qed

theorem C6_sorted_by_name_witness:
  "update_player_list_players re_fragment table_sample None None None None
     = Inr (table_sample\<lparr>rows := [ana, bob]\<rparr>)
   \<and> map name_of [ana, bob] = map Str [''Ana'', ''Bob'']
   \<and> sorted [''Ana'', ''Bob'']
   \<and> same_records (table_sample\<lparr>rows := [ana, bob]\<rparr>) table_sample
   \<and> map_sum id rows (update_player_list_players re_fragment (table_sample\<lparr>rows := [ana, bob]\<rparr>) None None None None)
       = Inr [ana, bob]"
proof -
  have a: "update_player_list_players re_fragment table_sample None None None None
     = Inr (table_sample\<lparr>rows := [ana, bob]\<rparr>)"
    by (simp add: players_defs sample_defs)
  have b: "same_records (table_sample\<lparr>rows := [ana, bob]\<rparr>) table_sample"
    by (simp add: same_records_def name_of_def cell_at_def sample_defs)
  have n: "map name_of [ana, bob] = map Str [''Ana'', ''Bob'']"
    by (simp add: name_of_def cell_at_def sample_defs)
  from C6_sorted_by_name [of re_fragment table_sample None None None None "table_sample\<lparr>rows := [ana, bob]\<rparr>" "table_sample\<lparr>rows := [ana, bob]\<rparr>"] a b n
  have "sorted [''Ana'', ''Bob'']
        \<and> map_sum id rows (update_player_list_players re_fragment (table_sample\<lparr>rows := [ana, bob]\<rparr>) None None None None)
       = Inr [ana, bob]"
    by simp
  with a b n show ?thesis by blast
qed

section \<open>Properties of the views\<close>

lemma and_then_Inr: "and_then (Inr x) f = f x"
  by (simp add: and_then_def)

lemma and_then_Inl: "and_then (Inl e) f = Inl e"
  by (simp add: and_then_def)

lemma radar_labels:
  "collect (map (getitem LABELS) radar_attrs) =
     Inr [''Forehand Power'', ''Backhand Power'', ''Service Power'', ''Speed'', ''Stamina'', ''Focus'']"
  by (simp add: radar_attrs_def getitem_def LABELS_def and_then_def)

lemma first_named_error:
  "first_named df n = Inl e \<Longrightarrow>
     e = (if ''name'' \<in> set (columns df) then IndexError else KeyError ''name'')"
  by (auto simp: first_named_def and_then_def getcol_def split: if_splits list.splits)

lemma radar_frame_value:
  "radar_frame df p tag =
     Inr (map (\<lambda>(label, a). (label, series_get df p a (Num 0), tag))
       (zip [''Forehand Power'', ''Backhand Power'', ''Service Power'', ''Speed'', ''Stamina'', ''Focus'']
            radar_attrs))"
  by (simp add: radar_frame_def radar_labels and_then_def)

lemma table_rows_value:
  "collect (map (\<lambda>attr. and_then (getitem LABELS attr) (\<lambda>label.
       Inr (label, series_get df p1 attr (Str DASH), series_get df p2 attr (Str DASH)))) radar_attrs)
   = Inr (map (\<lambda>(label, a). (label, series_get df p1 a (Str DASH), series_get df p2 a (Str DASH)))
       (zip [''Forehand Power'', ''Backhand Power'', ''Service Power'', ''Speed'', ''Stamina'', ''Focus'']
            radar_attrs))"
  by (simp add: radar_attrs_def getitem_def LABELS_def and_then_def)

lemma compare_players_found:
  assumes "first_named df a = Inr p1" and "first_named df b = Inr p2"
    and "a \<noteq> []" and "b \<noteq> []"
  shows "compare_players df (Some a) (Some b) =
     Inr (Comparison
       (map (\<lambda>(label, k). (label, series_get df p1 k (Num 0), a))
          (zip [''Forehand Power'', ''Backhand Power'', ''Service Power'', ''Speed'', ''Stamina'', ''Focus''] radar_attrs)
        @ map (\<lambda>(label, k). (label, series_get df p2 k (Num 0), b))
          (zip [''Forehand Power'', ''Backhand Power'', ''Service Power'', ''Speed'', ''Stamina'', ''Focus''] radar_attrs))
       (''Attribute'', a, b)
       (map (\<lambda>(label, k). (label, series_get df p1 k (Str DASH), series_get df p2 k (Str DASH)))
          (zip [''Forehand Power'', ''Backhand Power'', ''Service Power'', ''Speed'', ''Stamina'', ''Focus''] radar_attrs)))"
  using assms
  by (simp add: compare_players_def radar_frame_value table_rows_value and_then_Inr)

lemma compare_players_swap:
  "compare_players df b a = map_sum id swapped (compare_players df a b)"
proof (cases "truthy a \<and> truthy b")
  case False
  then show ?thesis
    by (auto simp: compare_players_def truthy_def swapped_def split: option.splits)
next
  case True
  then obtain a' b' where ab: "a = Some a'" "b = Some b'" "a' \<noteq> []" "b' \<noteq> []"
    by (auto simp: truthy_def split: option.splits)
  show ?thesis
  proof (cases "first_named df a'")
    case (Inl e)
    note ea = this
    show ?thesis
    proof (cases "first_named df b'")
      case (Inl e')
      with ea first_named_error [OF ea] first_named_error [OF Inl] ab show ?thesis
        by (simp add: compare_players_def and_then_def)
    next
      case (Inr p2)
      with ea ab show ?thesis
        by (simp add: compare_players_def and_then_def)
    qed
  next
    case (Inr p1)
    note pa = this
    show ?thesis
    proof (cases "first_named df b'")
      case (Inl e')
      with pa ab show ?thesis
        by (simp add: compare_players_def and_then_def)
    next
      case (Inr p2)
      show ?thesis
        unfolding ab compare_players_found [OF pa Inr ab(3,4)]
          compare_players_found [OF Inr pa ab(4,3)]
        by (simp add: swapped_def radar_attrs_def)
    qed
  qed
qed

lemma compare_series:
  assumes "compare_players df a b = Inr (Comparison radar h rws)"
    and "compare_players df b a = Inr (Comparison radar' h' rws')"
  shows "series_of tag radar' = series_of tag radar"
proof -
  from assms(1) obtain a' b' where ab: "a = Some a'" "b = Some b'" "a' \<noteq> []" "b' \<noteq> []"
    by (auto simp: compare_players_def split: option.splits if_splits)
  from assms(1) ab obtain p1 p2 where p: "first_named df a' = Inr p1" "first_named df b' = Inr p2"
    by (auto simp: compare_players_def and_then_def split: sum.splits)
  have eq: "a' = b' \<Longrightarrow> p1 = p2" using p by auto
  from assms show ?thesis
    unfolding ab compare_players_found [OF p ab(3,4)] compare_players_found [OF p(2,1) ab(4,3)]
    using eq by (auto simp: series_of_def radar_attrs_def)
qed

lemma compare_labels:
  assumes "compare_players df a b = Inr (Comparison radar h rws)"
  shows "map fst rws = [''Forehand Power'', ''Backhand Power'', ''Service Power'',
                         ''Speed'', ''Stamina'', ''Focus'']
         \<and> map fst radar = map fst rws @ map fst rws
         \<and> h = (''Attribute'', the a, the b)"
proof -
  from assms obtain a' b' where ab: "a = Some a'" "b = Some b'" "a' \<noteq> []" "b' \<noteq> []"
    by (auto simp: compare_players_def split: option.splits if_splits)
  from assms ab obtain p1 p2 where p: "first_named df a' = Inr p1" "first_named df b' = Inr p2"
    by (auto simp: compare_players_def and_then_def split: sum.splits)
  from assms show ?thesis
    unfolding ab compare_players_found [OF p ab(3,4)]
    by (auto simp: radar_attrs_def)
qed

lemmas query_defs = player_name_of_def parse_qs_def parse_qsl_def parse_field_def
  unquote_plus_def unquote_def is_ascii_char_def utf8_replace_def utf8_start_def

lemma player_name_bob: "player_name_of (Some ''?player=Bob'') = Some ''Bob''"
  by (simp add: query_defs)

lemma player_name_nonexistent:
  "player_name_of (Some ''?player=Nonexistent'') = Some ''Nonexistent''"
  by (simp add: query_defs)

lemma series_get_no_column: "key \<notin> set (columns df) \<Longrightarrow> series_get df p key d = d"
  by (simp add: series_get_def)

lemma series_get_missing_entry:
  "key \<in> set (columns df) \<Longrightarrow> map_of p key = None \<Longrightarrow> series_get df p key d = NA"
  by (simp add: series_get_def cell_at_def)

lemma first_named_bob: "first_named table_sample ''Bob'' = Inr bob"
  by (simp add: first_named_def and_then_def getcol_def name_of_def cell_at_def sample_defs)

lemma first_named_ana: "first_named table_sample ''Ana'' = Inr ana"
  by (simp add: first_named_def and_then_def getcol_def name_of_def cell_at_def sample_defs)

text \<open>
  C7. A player without an attribute that another record has: the code reads a missing
  entry, neither 0 in the overview nor the dash in the group table. "Bob" has no
  \<^verbatim>\<open>fh_power\<close> and no \<^verbatim>\<open>srv_power\<close>, "Ana" has both. The defaults only appear for
  the attributes that no record has (\<open>series_get_no_column\<close>): 0 for the backhand power
  in the overview, the dash for the service consistency in the table.
\<close>

theorem C7_missing_entry_is_not_defaulted:
  "map_of bob ''fh_power'' = None \<and> map_of bob ''srv_power'' = None
   \<and> render_tabs table_sample ''overview'' (Some ''?player=Bob'')
     = Inr (Overview (Str ''Bob'') (Str ''Defensive'') (Str ''Right'') (Num 180) (Num 75)
         [(''Forehand Power'', NA), (''Backhand Power'', Num 0), (''Service Power'', NA),
          (''Speed'', Num 40), (''Stamina'', Num 0), (''Focus'', Num 0)])
   \<and> render_tabs table_sample ''serve'' (Some ''?player=Bob'')
     = Inr (GroupTable (Str ''Bob'') ''Serve''
         [(''Service Power'', NA), (''Service Consistency'', Str DASH),
          (''Service Precision'', Str DASH)])"
proof (intro conjI)
  show "map_of bob ''fh_power'' = None" by (simp add: bob_def)
  show "map_of bob ''srv_power'' = None" by (simp add: bob_def)
  show "render_tabs table_sample ''overview'' (Some ''?player=Bob'')
     = Inr (Overview (Str ''Bob'') (Str ''Defensive'') (Str ''Right'') (Num 180) (Num 75)
         [(''Forehand Power'', NA), (''Backhand Power'', Num 0), (''Service Power'', NA),
          (''Speed'', Num 40), (''Stamina'', Num 0), (''Focus'', Num 0)])"
    by (simp add: render_tabs_def player_name_bob and_then_def getcol_def overview_def
        getitem_def LABELS_def series_item_def series_get_def radar_attrs_def name_of_def cell_at_def
        sample_defs)
  show "render_tabs table_sample ''serve'' (Some ''?player=Bob'')
     = Inr (GroupTable (Str ''Bob'') ''Serve''
         [(''Service Power'', NA), (''Service Consistency'', Str DASH),
          (''Service Precision'', Str DASH)])"
    by (simp add: render_tabs_def player_name_bob and_then_def getcol_def group_table_def
        capitalize_def upper_def lower_def getitem_def GROUPS_def LABELS_def
        series_item_def series_get_def name_of_def cell_at_def sample_defs)
qed

text \<open>
  C8. Exchanging the two players gives the exchanged comparison: the radar rows of the
  two players in the other order, the head of the table and its two value columns
  exchanged (any exception is the same one). Under every tag the radar series is the
  same in both, and the rows are those of the six fixed attributes, in their order.
\<close>

theorem C8_compare_symmetry:
  "compare_players df b a = map_sum id swapped (compare_players df a b)
   \<and> (\<forall>radar h rws radar' h' rws'.
        compare_players df a b = Inr (Comparison radar h rws)
        \<and> compare_players df b a = Inr (Comparison radar' h' rws')
        \<longrightarrow> (\<forall>tag. series_of tag radar' = series_of tag radar)
            \<and> map fst rws = [''Forehand Power'', ''Backhand Power'', ''Service Power'',
                               ''Speed'', ''Stamina'', ''Focus'']
            \<and> map fst radar = map fst rws @ map fst rws)"
  using compare_players_swap compare_series compare_labels by blast

theorem C8_compare_symmetry_witness:
  "\<exists>radar rws radar' rws'.
     compare_players table_sample (Some ''Bob'') (Some ''Ana'')
       = Inr (Comparison radar (''Attribute'', ''Bob'', ''Ana'') rws)
     \<and> compare_players table_sample (Some ''Ana'') (Some ''Bob'')
       = Inr (Comparison radar' (''Attribute'', ''Ana'', ''Bob'') rws')
     \<and> series_of ''Bob'' radar' = series_of ''Bob'' radar
     \<and> series_of ''Ana'' radar' = series_of ''Ana'' radar
     \<and> series_of ''Ana'' radar \<noteq> []"
proof -
  have ab: "\<exists>radar rws. compare_players table_sample (Some ''Bob'') (Some ''Ana'')
       = Inr (Comparison radar (''Attribute'', ''Bob'', ''Ana'') rws) \<and> series_of ''Ana'' radar \<noteq> []"
    by (simp add: compare_players_found [OF first_named_bob first_named_ana]
        series_of_def radar_attrs_def)
  have ba: "\<exists>radar rws. compare_players table_sample (Some ''Ana'') (Some ''Bob'')
       = Inr (Comparison radar (''Attribute'', ''Ana'', ''Bob'') rws)"
    by (simp add: compare_players_found [OF first_named_ana first_named_bob])
  from ab ba C8_compare_symmetry [of table_sample "Some ''Ana''" "Some ''Bob''"]
  show ?thesis by metis
qed

text \<open>
  C9. The four lookup conditions give values, not exceptions: without a selected
  player the placeholder; for a name that no record has the not-found result with
  that name; for a player that is found and a tab that is none of the eight, the
  invalid-tab result; for a comparison with an empty or absent slot its placeholder.
  (The table has a name column whenever it was loaded.)
\<close>

theorem C9_soft_failures:
  "(player_name_of search = None \<or> player_name_of search = Some [] \<longrightarrow>
      render_tabs df tab search = Inr SelectPlayer)
   \<and> (''name'' \<in> set (columns df) \<and> player_name_of search = Some n \<and> n \<noteq> []
        \<and> Str n \<notin> name_of ` set (rows df) \<longrightarrow>
      render_tabs df tab search = Inr (PlayerNotFound n))
   \<and> (''name'' \<in> set (columns df) \<and> player_name_of search = Some n \<and> n \<noteq> []
        \<and> Str n \<in> name_of ` set (rows df)
        \<and> tab \<notin> set [''overview'', ''rally'', ''volley'', ''serve'', ''special'', ''physique'',
                       ''talents'', ''compare''] \<longrightarrow>
      render_tabs df tab search = Inr InvalidTab)
   \<and> (\<not> truthy a \<or> \<not> truthy b \<longrightarrow> compare_players df a b = Inr SelectTwoPlayers)"
proof (intro conjI impI)
  assume "player_name_of search = None \<or> player_name_of search = Some []"
  then show "render_tabs df tab search = Inr SelectPlayer"
    by (auto simp: render_tabs_def)
next
  assume h: "''name'' \<in> set (columns df) \<and> player_name_of search = Some n \<and> n \<noteq> []
        \<and> Str n \<notin> name_of ` set (rows df)"
  then have "\<forall>r \<in> set (rows df). name_of r \<noteq> Str n"
    by (metis imageI)
  then have "filter (\<lambda>r. name_of r = Str n) (rows df) = []"
    by (simp add: filter_empty_conv)
  with h show "render_tabs df tab search = Inr (PlayerNotFound n)"
    by (simp add: render_tabs_def and_then_def getcol_def)
next
  assume h: "''name'' \<in> set (columns df) \<and> player_name_of search = Some n \<and> n \<noteq> []
        \<and> Str n \<in> name_of ` set (rows df)
        \<and> tab \<notin> set [''overview'', ''rally'', ''volley'', ''serve'', ''special'', ''physique'',
                       ''talents'', ''compare'']"
  then have "filter (\<lambda>r. name_of r = Str n) (rows df) \<noteq> []"
    by (auto simp: filter_empty_conv)
  then obtain p others where "filter (\<lambda>r. name_of r = Str n) (rows df) = p # others"
    by (cases "filter (\<lambda>r. name_of r = Str n) (rows df)") auto
  with h show "render_tabs df tab search = Inr InvalidTab"
    by (simp add: render_tabs_def and_then_def getcol_def)
next
  assume "\<not> truthy a \<or> \<not> truthy b"
  then show "compare_players df a b = Inr SelectTwoPlayers"
    by (auto simp: compare_players_def truthy_def split: option.splits)
qed

theorem C9_soft_failures_witness:
  "player_name_of None = None
   \<and> render_tabs table_sample ''overview'' None = Inr SelectPlayer
   \<and> player_name_of (Some ''?player=Nonexistent'') = Some ''Nonexistent''
   \<and> render_tabs table_sample ''overview'' (Some ''?player=Nonexistent'')
       = Inr (PlayerNotFound ''Nonexistent'')
   \<and> player_name_of (Some ''?player=Bob'') = Some ''Bob''
   \<and> render_tabs table_sample ''history'' (Some ''?player=Bob'') = Inr InvalidTab
   \<and> compare_players table_sample (Some ''Bob'') None = Inr SelectTwoPlayers"
proof -
  have n: "''name'' \<in> set (columns table_sample)" by (simp add: sample_defs)
  have names: "name_of ` set (rows table_sample) = {Str ''Bob'', Str ''Ana''}"
    by (simp add: name_of_def cell_at_def sample_defs)
  have none: "player_name_of None = None" by (simp add: player_name_of_def)
  have 1: "render_tabs table_sample ''overview'' None = Inr SelectPlayer"
    using C9_soft_failures [of None table_sample "''overview''"] none by simp
  have 2: "render_tabs table_sample ''overview'' (Some ''?player=Nonexistent'')
       = Inr (PlayerNotFound ''Nonexistent'')"
    using C9_soft_failures [of "Some ''?player=Nonexistent''" table_sample "''overview''" "''Nonexistent''"]
      n names player_name_nonexistent by simp
  have 3: "render_tabs table_sample ''history'' (Some ''?player=Bob'') = Inr InvalidTab"
    using C9_soft_failures [of "Some ''?player=Bob''" table_sample "''history''" "''Bob''"]
      n names player_name_bob by simp
  have 4: "compare_players table_sample (Some ''Bob'') None = Inr SelectTwoPlayers"
    using C9_soft_failures [of _ _ _ _ "Some ''Bob''" None] by (simp add: truthy_def)
  from none 1 player_name_nonexistent 2 player_name_bob 3 4 show ?thesis by simp
qed


end
